theory Spec2Isabelle
  imports Complex_Main "HOL-Library.Word"
begin

section \<open>JavaScript numbers\<close>

text \<open>
  The TypeScript sources compute on \<^verbatim>\<open>number\<close>, the IEEE double. A \<^verbatim>\<open>number\<close> is
  modelled as a real number or one of the three special values: the not-a-number value and
  the two infinities. The special values follow ECMAScript. A finite result is brought
  into the range of the doubles the way the hardware does it: a magnitude of at least
  \<open>2 ^ 1024 - 2 ^ 970\<close> overflows to an infinity, and a product or quotient of magnitude
  at most \<open>1 / 2 ^ 1075\<close> underflows to zero (a sum or difference of two doubles is zero
  or at least the smallest subnormal \<open>1 / 2 ^ 1074\<close>, so it cannot underflow). Inside the
  range a result is kept as the exact real: rounding to 53 bits, which ECMAScript leaves
  to the implementation for \<^verbatim>\<open>Math.asin\<close> and \<^verbatim>\<open>Math.hypot\<close>, and the sign of zero are
  not part of the model (a zero divisor counts as \<open>+0\<close>). The properties below are about
  guards, ranges and special values, none of which turns on the last bit of a result.
\<close>

datatype jsnum = NaN | NegInf | Fin real | PosInf

fun isFinite :: "jsnum \<Rightarrow> bool" where
  "isFinite (Fin r) = True"
| "isFinite _ = False"

text \<open>Truthiness of a number, as \<^verbatim>\<open>!v\<close> and \<^verbatim>\<open>a && b\<close> test it: \<open>0\<close> and \<open>NaN\<close> are falsy.\<close>

fun truthy :: "jsnum \<Rightarrow> bool" where
  "truthy NaN = False"
| "truthy (Fin r) = (r \<noteq> 0)"
| "truthy _ = True"

fun js_neg :: "jsnum \<Rightarrow> jsnum" where
  "js_neg NaN = NaN"
| "js_neg NegInf = PosInf"
| "js_neg (Fin a) = Fin (- a)"
| "js_neg PosInf = NegInf"

definition overflowThreshold :: real where
  "overflowThreshold = 2 ^ 1024 - 2 ^ 970"

definition underflowThreshold :: real where
  "underflowThreshold = 1 / 2 ^ 1075"

text \<open>A real result that can only overflow (sums, differences, \<^verbatim>\<open>Math.hypot\<close>).\<close>

definition overflowing :: "real \<Rightarrow> jsnum" where
  "overflowing r =
     (if overflowThreshold \<le> r then PosInf
      else if r \<le> - overflowThreshold then NegInf
      else Fin r)"

text \<open>A real result that can overflow or underflow (products, quotients).\<close>

definition toDouble :: "real \<Rightarrow> jsnum" where
  "toDouble r = (if \<bar>r\<bar> \<le> underflowThreshold then Fin 0 else overflowing r)"

fun js_add :: "jsnum \<Rightarrow> jsnum \<Rightarrow> jsnum" where
  "js_add NaN _ = NaN"
| "js_add _ NaN = NaN"
| "js_add (Fin a) (Fin b) = overflowing (a + b)"
| "js_add PosInf NegInf = NaN"
| "js_add NegInf PosInf = NaN"
| "js_add PosInf _ = PosInf"
| "js_add _ PosInf = PosInf"
| "js_add NegInf _ = NegInf"
| "js_add _ NegInf = NegInf"

fun js_sub :: "jsnum \<Rightarrow> jsnum \<Rightarrow> jsnum" where
  "js_sub NaN _ = NaN"
| "js_sub _ NaN = NaN"
| "js_sub (Fin a) (Fin b) = overflowing (a - b)"
| "js_sub PosInf PosInf = NaN"
| "js_sub NegInf NegInf = NaN"
| "js_sub PosInf _ = PosInf"
| "js_sub _ NegInf = PosInf"
| "js_sub NegInf _ = NegInf"
| "js_sub _ PosInf = NegInf"

fun js_mul :: "jsnum \<Rightarrow> jsnum \<Rightarrow> jsnum" where
  "js_mul NaN _ = NaN"
| "js_mul _ NaN = NaN"
| "js_mul (Fin a) (Fin b) = toDouble (a * b)"
| "js_mul (Fin a) PosInf = (if a = 0 then NaN else if 0 < a then PosInf else NegInf)"
| "js_mul (Fin a) NegInf = (if a = 0 then NaN else if 0 < a then NegInf else PosInf)"
| "js_mul PosInf (Fin b) = (if b = 0 then NaN else if 0 < b then PosInf else NegInf)"
| "js_mul NegInf (Fin b) = (if b = 0 then NaN else if 0 < b then NegInf else PosInf)"
| "js_mul PosInf PosInf = PosInf"
| "js_mul NegInf NegInf = PosInf"
| "js_mul PosInf NegInf = NegInf"
| "js_mul NegInf PosInf = NegInf"

fun js_div :: "jsnum \<Rightarrow> jsnum \<Rightarrow> jsnum" where
  "js_div NaN _ = NaN"
| "js_div _ NaN = NaN"
| "js_div (Fin a) (Fin b) =
     (if b = 0 then (if a = 0 then NaN else if 0 < a then PosInf else NegInf)
      else toDouble (a / b))"
| "js_div (Fin a) _ = Fin 0"
| "js_div PosInf (Fin b) = (if 0 \<le> b then PosInf else NegInf)"
| "js_div NegInf (Fin b) = (if 0 \<le> b then NegInf else PosInf)"
| "js_div _ _ = NaN"

text \<open>The comparison operators; every comparison with \<open>NaN\<close> is false.\<close>

fun js_lt :: "jsnum \<Rightarrow> jsnum \<Rightarrow> bool" where
  "js_lt NaN _ = False"
| "js_lt _ NaN = False"
| "js_lt (Fin a) (Fin b) = (a < b)"
| "js_lt _ NegInf = False"
| "js_lt NegInf _ = True"
| "js_lt PosInf _ = False"
| "js_lt _ PosInf = True"

definition js_gt :: "jsnum \<Rightarrow> jsnum \<Rightarrow> bool" where
  "js_gt a b = js_lt b a"

definition js_ge :: "jsnum \<Rightarrow> jsnum \<Rightarrow> bool" where
  "js_ge a b = (a \<noteq> NaN \<and> b \<noteq> NaN \<and> \<not> js_lt a b)"

definition Math_max :: "jsnum \<Rightarrow> jsnum \<Rightarrow> jsnum" where
  "Math_max a b = (if a = NaN \<or> b = NaN then NaN else if js_lt a b then b else a)"

definition Math_min :: "jsnum \<Rightarrow> jsnum \<Rightarrow> jsnum" where
  "Math_min a b = (if a = NaN \<or> b = NaN then NaN else if js_lt b a then b else a)"

fun Math_abs :: "jsnum \<Rightarrow> jsnum" where
  "Math_abs NaN = NaN"
| "Math_abs (Fin a) = Fin \<bar>a\<bar>"
| "Math_abs _ = PosInf"

fun Math_sqrt :: "jsnum \<Rightarrow> jsnum" where
  "Math_sqrt (Fin a) = (if a < 0 then NaN else Fin (sqrt a))"
| "Math_sqrt PosInf = PosInf"
| "Math_sqrt _ = NaN"

fun Math_asin :: "jsnum \<Rightarrow> jsnum" where
  "Math_asin (Fin a) = (if - 1 \<le> a \<and> a \<le> 1 then Fin (arcsin a) else NaN)"
| "Math_asin _ = NaN"

text \<open>\<^verbatim>\<open>Math.hypot\<close>: an infinite argument wins over \<open>NaN\<close>.\<close>

fun Math_hypot :: "jsnum \<Rightarrow> jsnum \<Rightarrow> jsnum" where
  "Math_hypot (Fin a) (Fin b) = overflowing (sqrt (a * a + b * b))"
| "Math_hypot PosInf _ = PosInf"
| "Math_hypot NegInf _ = PosInf"
| "Math_hypot _ PosInf = PosInf"
| "Math_hypot _ NegInf = PosInf"
| "Math_hypot _ _ = NaN"

text \<open>\<^verbatim>\<open>Math.round\<close> rounds to the nearest integer, ties towards \<open>+\<infinity>\<close>.\<close>

fun Math_round :: "jsnum \<Rightarrow> jsnum" where
  "Math_round (Fin a) = Fin (of_int \<lfloor>a + 1 / 2\<rfloor>)"
| "Math_round v = v"

section \<open>Face metrics (utils.ts)\<close>

text \<open>
  A landmark of the face detector; only the two normalised coordinates are read.
  The fields are \<^verbatim>\<open>x\<close> and \<^verbatim>\<open>y\<close> in the source.
\<close>

record landmark =
  lm_x :: jsnum
  lm_y :: jsnum

type_synonym FaceLandmarks = "landmark list"

record FaceMetrics =
  distanceCm :: jsnum
  yawDeg :: jsnum

definition DEFAULT_IPD_CM :: jsnum where "DEFAULT_IPD_CM = Fin (63 / 10)"
definition BASELINE_VIDEO_WIDTH :: jsnum where "BASELINE_VIDEO_WIDTH = Fin 1280"
definition BASELINE_FOCAL_PX :: jsnum where "BASELINE_FOCAL_PX = Fin 750"
definition HEAD_YAW_MAX_DEG :: jsnum where "HEAD_YAW_MAX_DEG = Fin 90"
definition RAD2DEG :: jsnum where "RAD2DEG = js_div (Fin 180) (Fin pi)"
definition YAW_OFFSET_SCALE :: jsnum where "YAW_OFFSET_SCALE = Fin (55 / 100)"
definition DISTANCE_RANGE_CM_min :: jsnum where "DISTANCE_RANGE_CM_min = Fin 10"
definition DISTANCE_RANGE_CM_max :: jsnum where "DISTANCE_RANGE_CM_max = Fin 150"
definition MIN_FACE_AREA :: jsnum where "MIN_FACE_AREA = Fin (15 / 1000)"

definition rightEyeOuter :: nat where "rightEyeOuter = 33"
definition leftEyeOuter :: nat where "leftEyeOuter = 263"
definition noseTip :: nat where "noseTip = 1"

definition clamp :: "jsnum \<Rightarrow> jsnum \<Rightarrow> jsnum \<Rightarrow> jsnum" where
  "clamp v lo hi = Math_min (Math_max v lo) hi"

definition distance2D :: "landmark \<Rightarrow> landmark \<Rightarrow> jsnum" where
  "distance2D a b =
     (let dx = js_sub (lm_x a) (lm_x b);
          dy = js_sub (lm_y a) (lm_y b)
      in Math_hypot dx dy)"

text \<open>\<^verbatim>\<open>landmarks[index] ?? null\<close>: reading past the end of the array gives \<^verbatim>\<open>undefined\<close>.\<close>

definition getLandmark :: "FaceLandmarks \<Rightarrow> nat \<Rightarrow> landmark option" where
  "getLandmark landmarks index =
     (if index < length landmarks then Some (landmarks ! index) else None)"

definition computeFaceMetrics :: "FaceLandmarks \<Rightarrow> jsnum \<Rightarrow> FaceMetrics option" where
  "computeFaceMetrics landmarks videoWidth =
     (if \<not> truthy videoWidth then None
      else
        (case (getLandmark landmarks leftEyeOuter,
               getLandmark landmarks rightEyeOuter,
               getLandmark landmarks noseTip) of
           (Some leftEye, Some rightEye, Some nose) \<Rightarrow>
             (let interpupilNorm = distance2D leftEye rightEye
              in if \<not> truthy interpupilNorm then None
                 else
                   (let interpupilPx = js_mul interpupilNorm videoWidth;
                        widthScale = js_div videoWidth BASELINE_VIDEO_WIDTH;
                        effectiveFocalPx = js_mul BASELINE_FOCAL_PX widthScale;
                        distanceCmRaw =
                          js_div (js_mul DEFAULT_IPD_CM effectiveFocalPx) interpupilPx;
                        distanceCm' =
                          clamp distanceCmRaw DISTANCE_RANGE_CM_min DISTANCE_RANGE_CM_max;
                        eyeMidX = js_div (js_add (lm_x leftEye) (lm_x rightEye)) (Fin 2);
                        noseOffset = js_sub (lm_x nose) eyeMidX;
                        yawRatio =
                          clamp (js_div noseOffset (js_mul interpupilNorm YAW_OFFSET_SCALE))
                            (Fin (- 1)) (Fin 1);
                        yawDegRaw =
                          clamp (js_mul (js_neg (Math_asin yawRatio)) RAD2DEG)
                            (js_neg HEAD_YAW_MAX_DEG) HEAD_YAW_MAX_DEG
                    in Some \<lparr>distanceCm = distanceCm', yawDeg = yawDegRaw\<rparr>))
         | _ \<Rightarrow> None))"

text \<open>
  The bounding-box area of a face: the \<^verbatim>\<open>forEach\<close> loop threads the four running
  extremes, which start at \<open>1, 0, 1, 0\<close>.
\<close>

fun computeFaceArea_loop ::
  "FaceLandmarks \<Rightarrow> jsnum \<times> jsnum \<times> jsnum \<times> jsnum \<Rightarrow> jsnum \<times> jsnum \<times> jsnum \<times> jsnum" where
  "computeFaceArea_loop [] acc = acc"
| "computeFaceArea_loop (lm # rest) (minX, maxX, minY, maxY) =
     computeFaceArea_loop rest
       (Math_min minX (lm_x lm), Math_max maxX (lm_x lm),
        Math_min minY (lm_y lm), Math_max maxY (lm_y lm))"

definition computeFaceArea :: "FaceLandmarks \<Rightarrow> jsnum" where
  "computeFaceArea landmarks =
     (case computeFaceArea_loop landmarks (Fin 1, Fin 0, Fin 1, Fin 0) of
        (minX, maxX, minY, maxY) \<Rightarrow>
          (let width = Math_max (Fin 0) (js_sub maxX minX);
               height = Math_max (Fin 0) (js_sub maxY minY)
           in js_mul width height))"

section \<open>Shared types (types.ts)\<close>

datatype EventKind = KindVideo | KindAudio | KindSystem

datatype Severity = SevInfo | SevWarn | SevError

datatype EventCategory =
  CatAudio | CatGaze | CatFaces | CatGadgets | CatCapacity | CatPresence | CatSystem

text \<open>
  An event record. \<^verbatim>\<open>ts\<close> is the ISO rendering of the millisecond clock value in the
  source; the model keeps the clock value itself.
\<close>

record EventRecord =
  ev_id :: string
  ts :: int
  message :: string
  severity :: Severity
  kind :: EventKind

text \<open>The arguments of one call of \<^verbatim>\<open>postEvent\<close>: an event candidate.\<close>

record PostEventCall =
  key :: string
  category :: EventCategory
  c_kind :: EventKind
  c_severity :: Severity
  c_message :: string

record IndividualFlags =
  audio :: bool
  gaze :: bool
  faces :: bool
  gadgets :: bool

text \<open>The third field is \<^verbatim>\<open>gaze\<close> in the source, as in \<^typ>\<open>IndividualFlags\<close>.\<close>

record TeamFlags =
  capacity :: bool
  presence :: bool
  team_gaze :: bool

text \<open>Decimal rendering of integers, as template literals print them.\<close>

fun showNat :: "nat \<Rightarrow> string" where
  "showNat n =
     (if n < 10 then [''0123456789'' ! n]
      else showNat (n div 10) @ [''0123456789'' ! (n mod 10)])"

declare showNat.simps [simp del]

definition showInt :: "int \<Rightarrow> string" where
  "showInt i = (if i < 0 then ''-'' @ showNat (nat (- i)) else showNat (nat i))"

text \<open>
  Rendering of a number that \<^verbatim>\<open>Math.round\<close> returned (an integer or a special value;
  the exponent notation of integers from \<open>10\<^sup>2\<^sup>1\<close> on is not modelled).
\<close>

fun roundedToString :: "jsnum \<Rightarrow> string" where
  "roundedToString NaN = ''NaN''"
| "roundedToString PosInf = ''Infinity''"
| "roundedToString NegInf = ''-Infinity''"
| "roundedToString (Fin r) = showInt \<lfloor>r\<rfloor>"

section \<open>The application shell (App.tsx)\<close>

datatype ProctorMode = Individual | Team

text \<open>The body of the request that \<^verbatim>\<open>postEvent\<close> sends to the collector.\<close>

record EventPayload =
  session_id :: string
  p_kind :: EventKind
  p_severity :: Severity
  p_message :: string
  p_ts :: int

text \<open>
  The state of the mounted proctor component: the React state and refs that the analysis
  loops read or write (the overlay text and the stream and model life-cycle states are
  display and set-up only and are left out).
\<close>

record IndividualState =
  faceCount :: nat
  primaryYaw :: "jsnum option"
  primaryDistance :: "jsnum option"
  audioLevel :: jsnum
  speechActive :: bool
  gadgetHit :: "string option"

record TeamState =
  team_faceCount :: nat
  team_primaryYaw :: "jsnum option"
  lastFaceTsRef :: int

datatype Proctor = IndividualProctor IndividualState | TeamProctor TeamState

record AppState =
  sessionId :: string
  mode :: ProctorMode
  teamLimit :: nat
  individualFlags :: IndividualFlags
  teamFlags :: TeamFlags
  events :: "EventRecord list"
  lastEventRef :: "string \<rightharpoonup> int"
  requests :: "EventPayload list"
  proctor :: Proctor

definition defaultIndividualFlags :: IndividualFlags where
  "defaultIndividualFlags = \<lparr>audio = True, gaze = True, faces = True, gadgets = True\<rparr>"

definition defaultTeamFlags :: TeamFlags where
  "defaultTeamFlags = \<lparr>capacity = True, presence = True, team_gaze = False\<rparr>"

text \<open>
  Indexing a flag object by a category: \<^verbatim>\<open>undefined\<close> for a category that is not one
  of its keys.
\<close>

fun lookupIndividualFlags :: "IndividualFlags \<Rightarrow> EventCategory \<Rightarrow> bool option" where
  "lookupIndividualFlags f CatAudio = Some (audio f)"
| "lookupIndividualFlags f CatGaze = Some (gaze f)"
| "lookupIndividualFlags f CatFaces = Some (faces f)"
| "lookupIndividualFlags f CatGadgets = Some (gadgets f)"
| "lookupIndividualFlags f _ = None"

fun lookupTeamFlags :: "TeamFlags \<Rightarrow> EventCategory \<Rightarrow> bool option" where
  "lookupTeamFlags f CatCapacity = Some (capacity f)"
| "lookupTeamFlags f CatPresence = Some (presence f)"
| "lookupTeamFlags f CatGaze = Some (team_gaze f)"
| "lookupTeamFlags f _ = None"

definition isFlagEnabled :: "AppState \<Rightarrow> EventCategory \<Rightarrow> bool" where
  "isFlagEnabled st cat =
     (if mode st = Individual
      then (case lookupIndividualFlags (individualFlags st) cat of
              None \<Rightarrow> True | Some b \<Rightarrow> b)
      else (case lookupTeamFlags (teamFlags st) cat of
              None \<Rightarrow> True | Some b \<Rightarrow> b))"

text \<open>
  \<^verbatim>\<open>postEvent\<close>. The two values it draws from the environment are parameters: \<open>now\<close> is
  \<^verbatim>\<open>Date.now()\<close> (integer milliseconds) and \<open>rnd\<close> the hexadecimal digits taken from
  \<^verbatim>\<open>Math.random()\<close>. The test \<^verbatim>\<open>last && now - last < 4000\<close> is false for a missing entry
  and for a stored \<open>0\<close>. A failing request is caught and only logged, so the request is
  recorded as attempted either way.
\<close>

definition postEvent ::
  "AppState \<Rightarrow> string \<Rightarrow> EventCategory \<Rightarrow> EventKind \<Rightarrow> Severity \<Rightarrow> string \<Rightarrow>
   int \<Rightarrow> string \<Rightarrow> AppState" where
  "postEvent st k cat knd sev msg now rnd =
     (if \<not> isFlagEnabled st cat then st
      else if (case lastEventRef st k of
                 None \<Rightarrow> False
               | Some last' \<Rightarrow> last' \<noteq> 0 \<and> now - last' < 4000)
      then st
      else
        (let entry = \<lparr>ev_id = showInt now @ ''-'' @ rnd, ts = now, message = msg,
                       severity = sev, kind = knd\<rparr>
         in st\<lparr>lastEventRef := (lastEventRef st)(k \<mapsto> now),
                events := drop (length (events st) - 19) (events st) @ [entry],
                requests := requests st @
                  [\<lparr>session_id = sessionId st, p_kind = knd, p_severity = sev,
                    p_message = msg, p_ts = ts entry\<rparr>]\<rparr>))"

text \<open>The calls of \<^verbatim>\<open>postEvent\<close> that a component makes in one callback, in order.\<close>

definition deliver :: "AppState \<Rightarrow> PostEventCall \<Rightarrow> int \<Rightarrow> string \<Rightarrow> AppState" where
  "deliver st c now rnd =
     postEvent st (key c) (category c) (c_kind c) (c_severity c) (c_message c) now rnd"

text \<open>
  \<open>clock i\<close> gives the clock value and the random digits that the \<open>i\<close>-th call of a
  callback draws.
\<close>

fun deliverAll ::
  "AppState \<Rightarrow> PostEventCall list \<Rightarrow> (nat \<Rightarrow> int \<times> string) \<Rightarrow> nat \<Rightarrow> AppState" where
  "deliverAll st [] clock i = st"
| "deliverAll st (c # cs) clock i =
     deliverAll (deliver st c (fst (clock i)) (snd (clock i))) cs clock (Suc i)"

section \<open>Individual mode (IndividualProctor.tsx)\<close>

definition GAZE_YAW_THRESHOLD :: jsnum where "GAZE_YAW_THRESHOLD = Fin 35"
definition YOLO_SAMPLE_MS :: int where "YOLO_SAMPLE_MS = 1800"

definition gadgetLabels :: "string list" where
  "gadgetLabels =
     [''cell phone'', ''laptop'', ''tv'', ''remote'', ''keyboard'', ''mouse'', ''tablet'',
      ''monitor'']"

definition speechThresholdOn :: jsnum where "speechThresholdOn = Fin (5 / 100)"
definition speechThresholdOff :: jsnum where "speechThresholdOff = Fin (25 / 1000)"

fun toKind :: "EventCategory \<Rightarrow> EventKind" where
  "toKind CatAudio = KindAudio"
| "toKind CatSystem = KindSystem"
| "toKind _ = KindVideo"

text \<open>
  What a frame callback sees when its guard holds (video and landmarker present, model
  ready, enough video data): the faces the landmarker returned and the width of the video.
  \<open>None\<close> stands for a callback whose guard fails.
\<close>

record frame =
  faceLandmarks :: "FaceLandmarks list"
  videoWidth :: jsnum

definition initialIndividualState :: IndividualState where
  "initialIndividualState =
     \<lparr>faceCount = 0, primaryYaw = None, primaryDistance = None, audioLevel = Fin 0,
      speechActive = False, gadgetHit = None\<rparr>"

text \<open>The video half of \<^verbatim>\<open>analyze\<close>.\<close>

definition analyzeVideo ::
  "IndividualFlags \<Rightarrow> frame option \<Rightarrow> IndividualState \<Rightarrow> PostEventCall list \<times> IndividualState"
  where
  "analyzeVideo flags fr s =
     (case fr of
        None \<Rightarrow> ([], s\<lparr>faceCount := 0\<rparr>)
      | Some f \<Rightarrow>
          (let count = length (faceLandmarks f);
               multi =
                 (if faces flags \<and> 1 < count
                  then [\<lparr>key = ''multi-face'', category = CatFaces, c_kind = toKind CatFaces,
                         c_severity = SevWarn, c_message = ''Multiple faces detected''\<rparr>]
                  else [])
           in case faceLandmarks f of
                [] \<Rightarrow>
                  (multi @
                   (if faces flags
                    then [\<lparr>key = ''no-face'', category = CatFaces, c_kind = toKind CatFaces,
                           c_severity = SevWarn, c_message = ''No face detected''\<rparr>]
                    else []),
                   s\<lparr>faceCount := count, primaryYaw := None, primaryDistance := None\<rparr>)
              | primaryFace # _ \<Rightarrow>
                  (let area = computeFaceArea primaryFace;
                       small =
                         (if js_lt area MIN_FACE_AREA \<and> faces flags
                          then [\<lparr>key = ''face-small'', category = CatFaces,
                                 c_kind = toKind CatFaces, c_severity = SevWarn,
                                 c_message = ''Face too small for reliable landmarks''\<rparr>]
                          else [])
                   in case computeFaceMetrics primaryFace (videoWidth f) of
                        None \<Rightarrow> (multi @ small, s\<lparr>faceCount := count\<rparr>)
                      | Some metrics \<Rightarrow>
                          (multi @ small @
                           (if gaze flags \<and>
                               js_gt (Math_abs (yawDeg metrics)) GAZE_YAW_THRESHOLD
                            then [\<lparr>key = ''yaw'', category = CatGaze,
                                   c_kind = toKind CatGaze, c_severity = SevWarn,
                                   c_message = ''Viewer looking away from screen''\<rparr>]
                            else []),
                           s\<lparr>faceCount := count, primaryYaw := Some (yawDeg metrics),
                              primaryDistance := Some (distanceCm metrics)\<rparr>))))"

text \<open>
  The root mean square of the time-domain bytes: the loop adds the squares of the centred
  samples.
\<close>

fun sumSquares_loop :: "8 word list \<Rightarrow> real \<Rightarrow> real" where
  "sumSquares_loop [] acc = acc"
| "sumSquares_loop (b # bs) acc =
     (let centered = (real (unat b) - 128) / 128
      in sumSquares_loop bs (acc + centered * centered))"

definition computeRms :: "8 word list \<Rightarrow> jsnum" where
  "computeRms dataArray =
     Math_sqrt (js_div (Fin (sumSquares_loop dataArray 0)) (Fin (real (length dataArray))))"

text \<open>
  The audio half of \<^verbatim>\<open>analyze\<close>, from the computed \<open>rms\<close> on. The speech state is React
  state: the value written here is the one the next callback reads.
\<close>

definition analyzeAudio ::
  "IndividualFlags \<Rightarrow> jsnum \<Rightarrow> IndividualState \<Rightarrow> PostEventCall list \<times> IndividualState"
  where
  "analyzeAudio flags rms s =
     (let level = clamp (js_mul rms (Fin 4)) (Fin 0) (Fin 1);
          s1 = s\<lparr>audioLevel := level\<rparr>
      in if audio flags
         then
           (if \<not> speechActive s \<and> js_gt rms speechThresholdOn
            then ([\<lparr>key = ''speech-on'', category = CatAudio, c_kind = toKind CatAudio,
                    c_severity = SevInfo, c_message = ''Speech detected''\<rparr>],
                  s1\<lparr>speechActive := True\<rparr>)
            else if speechActive s \<and> js_lt rms speechThresholdOff
            then ([\<lparr>key = ''speech-off'', category = CatAudio, c_kind = toKind CatAudio,
                    c_severity = SevInfo, c_message = ''Silence detected''\<rparr>],
                  s1\<lparr>speechActive := False\<rparr>)
            else ([], s1))
         else ([], s1))"

text \<open>
  \<^verbatim>\<open>analyze\<close>: the video half, then the audio half when an analyser exists (\<open>Some\<close> of
  the bytes it delivers).
\<close>

definition analyze ::
  "IndividualFlags \<Rightarrow> frame option \<Rightarrow> 8 word list option \<Rightarrow> IndividualState \<Rightarrow>
   PostEventCall list \<times> IndividualState" where
  "analyze flags fr analyser s =
     (case analyzeVideo flags fr s of
        (calls, s1) \<Rightarrow>
          (case analyser of
             None \<Rightarrow> (calls, s1)
           | Some dataArray \<Rightarrow>
               (case analyzeAudio flags (computeRms dataArray) s1 of
                  (calls', s2) \<Rightarrow> (calls @ calls', s2))))"

text \<open>One detection of the object detector.\<close>

record detection =
  label :: string
  score :: jsnum

text \<open>
  \<^verbatim>\<open>runDetector\<close>. \<open>None\<close> stands for a sample that returns early or whose detector call
  throws (detector or video missing, no drawing context, failure inside \<^verbatim>\<open>try\<close>); \<open>Some\<close>
  holds the detections of a sample that ran.
\<close>

definition runDetector ::
  "IndividualFlags \<Rightarrow> detection list option \<Rightarrow> IndividualState \<Rightarrow>
   PostEventCall list \<times> IndividualState" where
  "runDetector flags result s =
     (case result of
        None \<Rightarrow> ([], s)
      | Some detections \<Rightarrow>
          (let persons =
                 length (filter (\<lambda>d. label d = ''person'' \<and> js_ge (score d) (Fin (45 / 100)))
                           detections);
               gadget =
                 find (\<lambda>d. label d \<in> set gadgetLabels \<and> js_ge (score d) (Fin (35 / 100)))
                   detections;
               multi =
                 (if faces flags \<and> 1 < persons
                  then [\<lparr>key = ''yolo-multi-person'', category = CatFaces,
                         c_kind = toKind CatFaces, c_severity = SevWarn,
                         c_message = showNat persons @ '' people detected in frame (YOLO)''\<rparr>]
                  else [])
           in case gadget of
                None \<Rightarrow> (multi, s)
              | Some g \<Rightarrow>
                  (if gadgets flags
                   then (multi @
                         [\<lparr>key = ''yolo-gadget'', category = CatGadgets,
                           c_kind = toKind CatGadgets, c_severity = SevWarn,
                           c_message = ''Gadget detected: '' @ label g\<rparr>],
                         s\<lparr>gadgetHit :=
                             Some (label g @ '' ('' @
                                   roundedToString (Math_round (js_mul (score g) (Fin 100))) @
                                   ''%)'')\<rparr>)
                   else (multi, s))))"

section \<open>Team mode (TeamProctor.tsx)\<close>

definition GAZE_YAW_THRESHOLD_team :: jsnum where "GAZE_YAW_THRESHOLD_team = Fin 40"
definition NO_FACE_GRACE_MS :: int where "NO_FACE_GRACE_MS = 5000"

text \<open>\<^verbatim>\<open>useRef(Date.now())\<close>: the presence clock starts at mount time.\<close>

definition initialTeamState :: "int \<Rightarrow> TeamState" where
  "initialTeamState now = \<lparr>team_faceCount = 0, team_primaryYaw = None, lastFaceTsRef = now\<rparr>"

text \<open>The frame callback of team mode; \<open>now\<close> is the clock value of the callback.\<close>

definition analyzeTeam ::
  "nat \<Rightarrow> TeamFlags \<Rightarrow> frame option \<Rightarrow> int \<Rightarrow> TeamState \<Rightarrow> PostEventCall list \<times> TeamState"
  where
  "analyzeTeam limit flags fr now s =
     (case fr of
        None \<Rightarrow> ([], s\<lparr>team_faceCount := 0\<rparr>)
      | Some f \<Rightarrow>
          (let count = length (faceLandmarks f);
               s1 = s\<lparr>team_faceCount := count,
                      lastFaceTsRef := (if 0 < count then now else lastFaceTsRef s)\<rparr>;
               overflow =
                 (if capacity flags \<and> limit < count
                  then [\<lparr>key = ''team-overflow'', category = CatCapacity, c_kind = KindVideo,
                         c_severity = SevWarn,
                         c_message = showNat count @ '' people detected (limit '' @
                                     showNat limit @ '')''\<rparr>]
                  else []);
               empty =
                 (if presence flags \<and> count = 0 \<and> NO_FACE_GRACE_MS < now - lastFaceTsRef s1
                  then [\<lparr>key = ''team-empty'', category = CatPresence, c_kind = KindVideo,
                         c_severity = SevWarn, c_message = ''No teammates detected''\<rparr>]
                  else [])
           in case faceLandmarks f of
                [] \<Rightarrow> (overflow @ empty, s1\<lparr>team_primaryYaw := None\<rparr>)
              | primaryFace # _ \<Rightarrow>
                  (let metrics = computeFaceMetrics primaryFace (videoWidth f)
                   in (overflow @ empty @
                       (case metrics of
                          None \<Rightarrow> []
                        | Some m \<Rightarrow>
                            (if team_gaze flags \<and>
                                js_gt (Math_abs (yawDeg m)) GAZE_YAW_THRESHOLD_team
                             then [\<lparr>key = ''team-yaw'', category = CatGaze, c_kind = KindVideo,
                                    c_severity = SevWarn,
                                    c_message = ''Primary viewer looking away''\<rparr>]
                             else [])),
                       s1\<lparr>team_primaryYaw := map_option yawDeg metrics\<rparr>))))"

section \<open>Starting the capture\<close>

text \<open>
  The call that ends an attempt to start the capture: \<^verbatim>\<open>startStreams\<close> of individual mode
  and \<^verbatim>\<open>startStream\<close> of team mode post a \<open>system\<close> event when the streams are granted
  and another when the attempt fails.
\<close>

definition startStreams :: "bool \<Rightarrow> PostEventCall" where
  "startStreams granted =
     (if granted
      then \<lparr>key = ''media-on'', category = CatSystem, c_kind = toKind CatSystem,
            c_severity = SevInfo, c_message = ''Camera and mic granted''\<rparr>
      else \<lparr>key = ''media-error'', category = CatSystem, c_kind = toKind CatSystem,
            c_severity = SevError, c_message = ''Failed to start camera or mic''\<rparr>)"

definition startStream :: "bool \<Rightarrow> PostEventCall" where
  "startStream granted =
     (if granted
      then \<lparr>key = ''team-media-on'', category = CatSystem, c_kind = KindSystem,
            c_severity = SevInfo, c_message = ''Camera granted for team mode''\<rparr>
      else \<lparr>key = ''team-media-error'', category = CatSystem, c_kind = KindSystem,
            c_severity = SevError, c_message = ''Failed to start camera in team mode''\<rparr>)"

section \<open>Mounting and the callbacks of the mounted component\<close>

text \<open>
  \<^verbatim>\<open>App\<close> renders \<^verbatim>\<open>IndividualProctor\<close> or \<^verbatim>\<open>TeamProctor\<close> by \<^verbatim>\<open>mode\<close>. The two are
  different components at the same place of the tree, so a change of \<^verbatim>\<open>mode\<close> unmounts
  the one and mounts the other with its initial state; setting the mode it already has
  changes nothing. The throttle table and the event list belong to \<^verbatim>\<open>App\<close> and survive.
\<close>

definition mount :: "ProctorMode \<Rightarrow> int \<Rightarrow> Proctor" where
  "mount m now =
     (case m of
        Individual \<Rightarrow> IndividualProctor initialIndividualState
      | Team \<Rightarrow> TeamProctor (initialTeamState now))"

definition setMode :: "ProctorMode \<Rightarrow> int \<Rightarrow> AppState \<Rightarrow> AppState" where
  "setMode next now st =
     (if mode st = next then st else st\<lparr>mode := next, proctor := mount next now\<rparr>)"

definition initialAppState :: "string \<Rightarrow> AppState" where
  "initialAppState sid =
     \<lparr>sessionId = sid, mode = Individual, teamLimit = 3,
      individualFlags = defaultIndividualFlags, teamFlags = defaultTeamFlags,
      events = [], lastEventRef = Map.empty, requests = [],
      proctor = IndividualProctor initialIndividualState\<rparr>"

text \<open>The calls a callback of the mounted component makes; a callback of a component that
  is not mounted does not run.\<close>

definition frameCalls ::
  "AppState \<Rightarrow> frame option \<Rightarrow> 8 word list option \<Rightarrow> int \<Rightarrow> PostEventCall list \<times> Proctor"
  where
  "frameCalls st fr analyser now =
     (case proctor st of
        IndividualProctor s \<Rightarrow>
          (case analyze (individualFlags st) fr analyser s of
             (calls, s') \<Rightarrow> (calls, IndividualProctor s'))
      | TeamProctor s \<Rightarrow>
          (case analyzeTeam (teamLimit st) (teamFlags st) fr now s of
             (calls, s') \<Rightarrow> (calls, TeamProctor s')))"

definition frameTick ::
  "frame option \<Rightarrow> 8 word list option \<Rightarrow> int \<Rightarrow> (nat \<Rightarrow> int \<times> string) \<Rightarrow> AppState \<Rightarrow> AppState"
  where
  "frameTick fr analyser now clock st =
     (case frameCalls st fr analyser now of
        (calls, p) \<Rightarrow> deliverAll (st\<lparr>proctor := p\<rparr>) calls clock 0)"

definition detectorTick ::
  "detection list option \<Rightarrow> (nat \<Rightarrow> int \<times> string) \<Rightarrow> AppState \<Rightarrow> AppState" where
  "detectorTick result clock st =
     (case proctor st of
        IndividualProctor s \<Rightarrow>
          (case runDetector (individualFlags st) result s of
             (calls, s') \<Rightarrow> deliverAll (st\<lparr>proctor := IndividualProctor s'\<rparr>) calls clock 0)
      | TeamProctor s \<Rightarrow> st)"

text \<open>
  What can happen to the application, one step at a time: a frame callback, an
  object-detector sample, the end of an attempt to start the capture, a click on a mode
  tab, a change of a flag object or of the team limit, and the button that clears the
  event list. A step returns the calls of
  \<^verbatim>\<open>postEvent\<close> it made and the next state. (A detector sample still in flight when its
  component unmounts is not followed further.)
\<close>

datatype action =
    Frame "frame option" "8 word list option" int "nat \<Rightarrow> int \<times> string"
  | Sample "detection list option" "nat \<Rightarrow> int \<times> string"
  | CaptureStarted bool "nat \<Rightarrow> int \<times> string"
  | SetMode ProctorMode int
  | SetIndividualFlags IndividualFlags
  | SetTeamFlags TeamFlags
  | SetTeamLimit nat
  | ClearEvents

fun sampleCalls :: "AppState \<Rightarrow> detection list option \<Rightarrow> PostEventCall list" where
  "sampleCalls st result =
     (case proctor st of
        IndividualProctor s \<Rightarrow> fst (runDetector (individualFlags st) result s)
      | TeamProctor s \<Rightarrow> [])"

fun captureCalls :: "AppState \<Rightarrow> bool \<Rightarrow> PostEventCall list" where
  "captureCalls st granted =
     (case proctor st of
        IndividualProctor s \<Rightarrow> [startStreams granted]
      | TeamProctor s \<Rightarrow> [startStream granted])"

fun step :: "action \<Rightarrow> AppState \<Rightarrow> PostEventCall list \<times> AppState" where
  "step (Frame fr analyser now clock) st =
     (fst (frameCalls st fr analyser now), frameTick fr analyser now clock st)"
| "step (Sample result clock) st = (sampleCalls st result, detectorTick result clock st)"
| "step (CaptureStarted granted clock) st =
     (captureCalls st granted, deliverAll st (captureCalls st granted) clock 0)"
| "step (SetMode next now) st = ([], setMode next now st)"
| "step (SetIndividualFlags f) st = ([], st\<lparr>individualFlags := f\<rparr>)"
| "step (SetTeamFlags f) st = ([], st\<lparr>teamFlags := f\<rparr>)"
| "step (SetTeamLimit n) st = ([], st\<lparr>teamLimit := min 10 (max 1 n)\<rparr>)"
| "step ClearEvents st = ([], st\<lparr>events := []\<rparr>)"

fun run :: "action list \<Rightarrow> AppState \<Rightarrow> PostEventCall list \<times> AppState" where
  "run [] st = ([], st)"
| "run (a # as) st =
     (case step a st of
        (calls, st') \<Rightarrow> (case run as st' of (calls', st'') \<Rightarrow> (calls @ calls', st'')))"

section \<open>Notions used to state the properties\<close>

text \<open>A number within \<open>[lo, hi]\<close>: finite and between the bounds.\<close>

definition inRange :: "real \<Rightarrow> real \<Rightarrow> jsnum \<Rightarrow> bool" where
  "inRange lo hi v = (case v of Fin r \<Rightarrow> lo \<le> r \<and> r \<le> hi | _ \<Rightarrow> False)"

definition finiteLandmark :: "landmark \<Rightarrow> bool" where
  "finiteLandmark p = (isFinite (lm_x p) \<and> isFinite (lm_y p))"






text \<open>A landmark with finite coordinates, and a face of 264 landmarks with the three
  landmarks that the metrics read put at their indices.\<close>

definition pt :: "real \<Rightarrow> real \<Rightarrow> landmark" where
  "pt a b = \<lparr>lm_x = Fin a, lm_y = Fin b\<rparr>"

definition faceWith :: "landmark \<Rightarrow> landmark \<Rightarrow> landmark \<Rightarrow> FaceLandmarks" where
  "faceWith leftEye rightEye nose =
     (replicate 264 nose)[noseTip := nose, rightEyeOuter := rightEye, leftEyeOuter := leftEye]"

text \<open>Two frames of one face on a 1280 pixel video: one looking straight ahead and one
  with the nose far to the side of the eyes.\<close>

definition frontalFrame :: frame where
  "frontalFrame =
     \<lparr>faceLandmarks = [faceWith (pt (3 / 5) (1 / 2)) (pt (2 / 5) (1 / 2)) (pt (1 / 2) (1 / 2))],
      videoWidth = Fin 1280\<rparr>"

definition turnedFrame :: frame where
  "turnedFrame =
     \<lparr>faceLandmarks = [faceWith (pt (3 / 5) (1 / 2)) (pt (2 / 5) (1 / 2)) (pt (7 / 10) (1 / 2))],
      videoWidth = Fin 1280\<rparr>"

text \<open>The keys of the calls made, tick by tick, when the audio half runs on a sequence of
  RMS values.\<close>

fun audioTrace :: "IndividualFlags \<Rightarrow> jsnum list \<Rightarrow> IndividualState \<Rightarrow> string list list" where
  "audioTrace flags [] s = []"
| "audioTrace flags (rms # rest) s =
     (case analyzeAudio flags rms s of
        (calls, s') \<Rightarrow> map key calls # audioTrace flags rest s')"

text \<open>
  In a sequence of call keys, every \<open>speech-off\<close> comes after a \<open>speech-on\<close> that no other
  \<open>speech-off\<close> has used up; \<open>active\<close> tells whether such a \<open>speech-on\<close> is pending at the
  start.
\<close>

fun offFollowsOn :: "bool \<Rightarrow> string list \<Rightarrow> bool" where
  "offFollowsOn active [] = True"
| "offFollowsOn active (k # ks) =
     (if k = ''speech-on'' then offFollowsOn True ks
      else if k = ''speech-off'' then active \<and> offFollowsOn False ks
      else offFollowsOn active ks)"

text \<open>Whether a \<open>speech-on\<close> is pending at the end of a sequence of call keys.\<close>

fun pendingAfter :: "bool \<Rightarrow> string list \<Rightarrow> bool" where
  "pendingAfter active [] = active"
| "pendingAfter active (k # ks) =
     (if k = ''speech-on'' then pendingAfter True ks
      else if k = ''speech-off'' then pendingAfter False ks
      else pendingAfter active ks)"

text \<open>Whether the speech state of the mounted component is on (team mode has none).\<close>

fun speechPending :: "Proctor \<Rightarrow> bool" where
  "speechPending (IndividualProctor s) = speechActive s"
| "speechPending (TeamProctor s) = False"

text \<open>The mounted component is the one that \<^verbatim>\<open>App\<close> renders for the mode.\<close>

definition wellMounted :: "AppState \<Rightarrow> bool" where
  "wellMounted st =
     (case proctor st of
        IndividualProctor s \<Rightarrow> mode st = Individual
      | TeamProctor s \<Rightarrow> mode st = Team)"

text \<open>Two application states used as concrete inputs: a fresh session in which
  \<open>no-face\<close> was posted at clock value 5000, and a fresh session with every individual
  flag switched off.\<close>

definition afterNoFace :: AppState where
  "afterNoFace =
     postEvent (initialAppState ''s1'') ''no-face'' CatFaces KindVideo SevWarn
       ''No face detected'' 5000 ''a1''"

definition allFlagsOff :: AppState where
  "allFlagsOff =
     (initialAppState ''s1'')
       \<lparr>individualFlags := \<lparr>audio = False, gaze = False, faces = False, gadgets = False\<rparr>\<rparr>"

text \<open>A session in individual mode in which speech is going on, the bytes of a silent
  audio window (every sample at the centre value 128), and a clock for the calls of one
  callback.\<close>

definition speakingState :: AppState where
  "speakingState =
     (initialAppState ''s1'')
       \<lparr>proctor := IndividualProctor (initialIndividualState\<lparr>speechActive := True\<rparr>)\<rparr>"

definition silentWindow :: "8 word list" where
  "silentWindow = replicate 1024 128"

definition clockAt :: "int \<Rightarrow> nat \<Rightarrow> int \<times> string" where
  "clockAt t i = (t, ''e5'')"

section \<open>Facts about numbers\<close>

lemma isFinite_iff: "isFinite v \<longleftrightarrow> (\<exists>r. v = Fin r)"
  by (cases v) auto

text \<open>Results of moderate size are neither overflowed nor underflowed.\<close>

lemma overflowThreshold_ge: "2 ^ 1023 \<le> overflowThreshold"
proof -
  have "(2::real) ^ 970 \<le> 2 ^ 1023"
    by (rule power_increasing) simp_all
  moreover have "(2::real) ^ 1024 = 2 * 2 ^ 1023"
    by simp
  ultimately show ?thesis
    by (simp add: overflowThreshold_def)
qed

lemma two_64_less_threshold: "(2::real) ^ 64 < overflowThreshold"
proof -
  have "(2::real) ^ 64 < 2 ^ 1023"
    by (rule power_strict_increasing) simp_all
  with overflowThreshold_ge show ?thesis by linarith
qed

lemma underflowThreshold_less: "underflowThreshold < 1 / 2 ^ 64"
proof -
  have "(2::real) ^ 64 < 2 ^ 1075"
    by (rule power_strict_increasing) simp_all
  then show ?thesis
    by (simp add: underflowThreshold_def field_simps)
qed

lemma overflowing_Fin: "\<bar>r\<bar> < overflowThreshold \<Longrightarrow> overflowing r = Fin r"
  by (auto simp: overflowing_def)

lemma overflowing_small [simp]: "\<bar>r\<bar> \<le> 2 ^ 64 \<Longrightarrow> overflowing r = Fin r"
  using two_64_less_threshold by (intro overflowing_Fin) linarith

lemma toDouble_zero [simp]: "toDouble 0 = Fin 0"
  by (simp add: toDouble_def underflowThreshold_def)

lemma toDouble_moderate [simp]:
  "1 / 2 ^ 64 \<le> \<bar>r\<bar> \<Longrightarrow> \<bar>r\<bar> \<le> 2 ^ 64 \<Longrightarrow> toDouble r = Fin r"
  using underflowThreshold_less by (simp add: toDouble_def)

lemma overflowing_not_NaN [simp]: "overflowing r \<noteq> NaN"
  by (simp add: overflowing_def)

lemma toDouble_not_NaN [simp]: "toDouble r \<noteq> NaN"
  by (simp add: toDouble_def)

lemma toDouble_eq_zero_iff: "toDouble r = Fin 0 \<longleftrightarrow> \<bar>r\<bar> \<le> underflowThreshold"
  by (auto simp: toDouble_def overflowing_def underflowThreshold_def)

lemma overflowThreshold_pos: "0 < overflowThreshold"
  using overflowThreshold_ge by (smt (verit) zero_less_power)

lemma smallestSubnormal_gt: "underflowThreshold < 1 / 2 ^ 1074"
  by (simp add: underflowThreshold_def field_simps)



lemma overflowing_cases:
  "overflowing r = Fin r \<or> (overflowing r = PosInf \<or> overflowing r = NegInf) \<and> r \<noteq> 0"
  using overflowThreshold_pos by (auto simp: overflowing_def)





lemma clamp_NaN_or_inRange:
  "lo \<le> hi \<Longrightarrow> clamp v (Fin lo) (Fin hi) = NaN \<or> inRange lo hi (clamp v (Fin lo) (Fin hi))"
  by (cases v) (auto simp: clamp_def Math_min_def Math_max_def inRange_def)


lemma inRange_Fin: "inRange lo hi v \<Longrightarrow> \<exists>r. v = Fin r \<and> lo \<le> r \<and> r \<le> hi"
  by (cases v) (auto simp: inRange_def)

section \<open>The metric engine\<close>

lemma distance2D_same_coords:
  "lm_x a = lm_x b \<Longrightarrow> lm_y a = lm_y b \<Longrightarrow> \<not> truthy (distance2D a b)"
  by (cases "lm_x b"; cases "lm_y b") (auto simp: distance2D_def)

text \<open>The distance of two points with finite coordinates is zero exactly when the points
  coincide (it may overflow to infinity, which is not zero).\<close>

lemma Math_hypot_Fin_truthy:
  "truthy (Math_hypot (Fin d1) (Fin d2)) \<longleftrightarrow> d1 \<noteq> 0 \<or> d2 \<noteq> 0"
proof -
  have "sqrt (d1 * d1 + d2 * d2) = 0 \<longleftrightarrow> d1 = 0 \<and> d2 = 0"
    by (simp add: add_nonneg_eq_0_iff)
  then show ?thesis
    using overflowing_cases[of "sqrt (d1 * d1 + d2 * d2)"] by auto
qed

lemma Math_hypot_truthy:
  "truthy (Math_hypot (overflowing d1) (overflowing d2)) \<longleftrightarrow> d1 \<noteq> 0 \<or> d2 \<noteq> 0"
  using overflowing_cases[of d1] overflowing_cases[of d2] Math_hypot_Fin_truthy[of d1 d2]
  by (cases "overflowing d1"; cases "overflowing d2") auto

lemma distance2D_finite_truthy:
  "finiteLandmark a \<Longrightarrow> finiteLandmark b \<Longrightarrow>
   truthy (distance2D a b) \<longleftrightarrow> lm_x a \<noteq> lm_x b \<or> lm_y a \<noteq> lm_y b"
  by (auto simp: finiteLandmark_def isFinite_iff distance2D_def Math_hypot_truthy)

lemma RAD2DEG_eq: "RAD2DEG = Fin (180 / pi)"
proof -
  have "1 / 2 ^ 64 \<le> \<bar>180 / pi\<bar>" "\<bar>180 / pi\<bar> \<le> 2 ^ 64"
    using pi_ge_two pi_less_4 pi_gt_zero by (simp_all add: field_simps)
  then show ?thesis
    by (simp add: RAD2DEG_def)
qed

text \<open>When the metrics are returned, all guards were passed and both fields are the
  clamped expressions.\<close>

lemma computeFaceMetrics_Some_iff:
  "computeFaceMetrics lms w = Some m \<longleftrightarrow>
     (\<exists>le re nose. truthy w \<and> getLandmark lms leftEyeOuter = Some le \<and>
        getLandmark lms rightEyeOuter = Some re \<and> getLandmark lms noseTip = Some nose \<and>
        truthy (distance2D le re) \<and>
        distanceCm m =
          clamp (js_div (js_mul DEFAULT_IPD_CM
                           (js_mul BASELINE_FOCAL_PX (js_div w BASELINE_VIDEO_WIDTH)))
                   (js_mul (distance2D le re) w))
            (Fin 10) (Fin 150) \<and>
        yawDeg m =
          clamp (js_mul (js_neg (Math_asin
                   (clamp (js_div (js_sub (lm_x nose)
                                     (js_div (js_add (lm_x le) (lm_x re)) (Fin 2)))
                             (js_mul (distance2D le re) YAW_OFFSET_SCALE))
                      (Fin (- 1)) (Fin 1)))) RAD2DEG)
            (Fin (- 90)) (Fin 90))"
  by (auto simp: computeFaceMetrics_def Let_def DISTANCE_RANGE_CM_min_def
      DISTANCE_RANGE_CM_max_def HEAD_YAW_MAX_DEG_def split: option.splits)

lemma computeFaceMetrics_None_iff:
  "computeFaceMetrics lms w = None \<longleftrightarrow>
     \<not> truthy w \<or> getLandmark lms leftEyeOuter = None \<or>
     getLandmark lms rightEyeOuter = None \<or> getLandmark lms noseTip = None \<or>
     \<not> truthy (distance2D (the (getLandmark lms leftEyeOuter))
                  (the (getLandmark lms rightEyeOuter)))"
  by (auto simp: computeFaceMetrics_def Let_def split: option.splits)

lemma metrics_NaN_or_inRange:
  assumes "computeFaceMetrics lms w = Some m"
  shows "(distanceCm m = NaN \<or> inRange 10 150 (distanceCm m)) \<and>
         (yawDeg m = NaN \<or> inRange (- 90) 90 (yawDeg m))"
proof -
  from assms obtain v1 v2 where "distanceCm m = clamp v1 (Fin 10) (Fin 150)"
    "yawDeg m = clamp v2 (Fin (- 90)) (Fin 90)"
    unfolding computeFaceMetrics_Some_iff by blast
  then show ?thesis
    using clamp_NaN_or_inRange[of 10 150 v1] clamp_NaN_or_inRange[of "- 90" 90 v2] by simp
qed








subsection \<open>The metrics of some concrete faces\<close>

lemma getLandmark_faceWith [simp]:
  "getLandmark (faceWith le re nose) leftEyeOuter = Some le"
  "getLandmark (faceWith le re nose) rightEyeOuter = Some re"
  "getLandmark (faceWith le re nose) noseTip = Some nose"
  by (simp_all add: getLandmark_def faceWith_def leftEyeOuter_def rightEyeOuter_def
      noseTip_def)

lemma getLandmark_Nil [simp]: "getLandmark [] i = None"
  by (simp add: getLandmark_def)

lemma finiteLandmark_pt [simp]: "finiteLandmark (pt a b)"
  by (simp add: finiteLandmark_def pt_def)

lemma pt_coords [simp]: "lm_x (pt a b) = Fin a" "lm_y (pt a b) = Fin b"
  by (simp_all add: pt_def)

lemma distance2D_pt_level:
  "\<bar>a - b\<bar> \<le> 2 ^ 64 \<Longrightarrow> distance2D (pt a c) (pt b c) = Fin \<bar>a - b\<bar>"
  by (simp add: distance2D_def pt_def)

lemmas metric_consts =
  clamp_def Math_max_def Math_min_def DEFAULT_IPD_CM_def BASELINE_FOCAL_PX_def
  BASELINE_VIDEO_WIDTH_def YAW_OFFSET_SCALE_def RAD2DEG_eq HEAD_YAW_MAX_DEG_def
  DISTANCE_RANGE_CM_min_def DISTANCE_RANGE_CM_max_def


text \<open>Eyes at \<open>(0.6, 0.5)\<close> and \<open>(0.4, 0.5)\<close>, nose between them, on a 1280 pixel frame:
  no yaw, about 18.5 cm.\<close>

lemma metrics_frontal:
  "computeFaceMetrics (faceWith (pt (3 / 5) (1 / 2)) (pt (2 / 5) (1 / 2)) (pt (1 / 2) (1 / 2)))
     (Fin 1280) = Some \<lparr>distanceCm = Fin (4725 / 256), yawDeg = Fin 0\<rparr>"
  by (simp add: computeFaceMetrics_def distance2D_pt_level Let_def)
     (simp add: pt_def metric_consts)

text \<open>The nose far to one side: the ratio is clamped to \<open>1\<close> and the yaw is \<open>-90\<close> degrees.\<close>

lemma metrics_turned:
  "computeFaceMetrics (faceWith (pt (3 / 5) (1 / 2)) (pt (2 / 5) (1 / 2)) (pt (7 / 10) (1 / 2)))
     (Fin 1280) = Some \<lparr>distanceCm = Fin (4725 / 256), yawDeg = Fin (- 90)\<rparr>"
  by (simp add: computeFaceMetrics_def distance2D_pt_level Let_def)
     (simp add: pt_def metric_consts)








section \<open>Claims about the metric engine\<close>

text \<open>
  C9. When the left-eye-outer and right-eye-outer landmarks coincide (same coordinates,
  or normalised interpupillary distance \<open>0\<close>), \<open>computeFaceMetrics\<close> returns none, whatever
  the frame width and the nose landmark are: a failure case next to the zero width and the
  absent landmarks.
\<close>

theorem computeFaceMetrics_coinciding_eyes:
  assumes "getLandmark lms leftEyeOuter = Some le"
    and "getLandmark lms rightEyeOuter = Some re"
    and "lm_x le = lm_x re \<and> lm_y le = lm_y re \<or> distance2D le re = Fin 0"
  shows "computeFaceMetrics lms vw = None"
proof -
  from assms(3) have "\<not> truthy (distance2D le re)"
    using distance2D_same_coords[of le re] by auto
  with assms(1,2) show ?thesis
    by (simp add: computeFaceMetrics_None_iff)
qed

text \<open>Both eyes at \<open>(0.3, 0.4)\<close>, all three landmarks present, frame width 640.\<close>

theorem computeFaceMetrics_coinciding_eyes_witness:
  "getLandmark (faceWith (pt (3 / 10) (2 / 5)) (pt (3 / 10) (2 / 5)) (pt (1 / 2) (1 / 2)))
     leftEyeOuter = Some (pt (3 / 10) (2 / 5)) \<and>
   getLandmark (faceWith (pt (3 / 10) (2 / 5)) (pt (3 / 10) (2 / 5)) (pt (1 / 2) (1 / 2)))
     rightEyeOuter = Some (pt (3 / 10) (2 / 5)) \<and>
   getLandmark (faceWith (pt (3 / 10) (2 / 5)) (pt (3 / 10) (2 / 5)) (pt (1 / 2) (1 / 2)))
     noseTip = Some (pt (1 / 2) (1 / 2)) \<and>
   truthy (Fin 640) \<and>
   computeFaceMetrics
     (faceWith (pt (3 / 10) (2 / 5)) (pt (3 / 10) (2 / 5)) (pt (1 / 2) (1 / 2))) (Fin 640) = None"
  using computeFaceMetrics_coinciding_eyes
    [of "faceWith (pt (3 / 10) (2 / 5)) (pt (3 / 10) (2 / 5)) (pt (1 / 2) (1 / 2))"
        "pt (3 / 10) (2 / 5)" "pt (3 / 10) (2 / 5)" "Fin 640"]
  by simp

text \<open>
  C2, as stated: none for a zero frame width or an absent required landmark, and a value
  for every other input. The second half fails: with frame width 1280 and all three
  landmarks present, but both eyes at \<open>(0.5, 0.5)\<close>, the result is none.
\<close>

theorem computeFaceMetrics_total_counterexample:
  "Fin 1280 \<noteq> Fin 0 \<and>
   getLandmark (faceWith (pt (1 / 2) (1 / 2)) (pt (1 / 2) (1 / 2)) (pt (1 / 2) (3 / 5)))
     leftEyeOuter \<noteq> None \<and>
   getLandmark (faceWith (pt (1 / 2) (1 / 2)) (pt (1 / 2) (1 / 2)) (pt (1 / 2) (3 / 5)))
     rightEyeOuter \<noteq> None \<and>
   getLandmark (faceWith (pt (1 / 2) (1 / 2)) (pt (1 / 2) (1 / 2)) (pt (1 / 2) (3 / 5)))
     noseTip \<noteq> None \<and>
   computeFaceMetrics
     (faceWith (pt (1 / 2) (1 / 2)) (pt (1 / 2) (1 / 2)) (pt (1 / 2) (3 / 5))) (Fin 1280) = None"
  by (simp add: computeFaceMetrics_def distance2D_pt_level Let_def)

text \<open>
  C2, amended. \<open>computeFaceMetrics\<close> returns none whenever the frame width is \<open>0\<close> or one
  of the three required landmarks is absent. When the frame width and the coordinates of
  the two eye landmarks are finite numbers and the three landmarks are present, it returns
  none exactly when the frame width is \<open>0\<close> or the two eye landmarks have the same
  coordinates, and a value otherwise.
\<close>

theorem computeFaceMetrics_none_cases:
  "(vw = Fin 0 \<or> getLandmark lms leftEyeOuter = None \<or>
    getLandmark lms rightEyeOuter = None \<or> getLandmark lms noseTip = None
      \<longrightarrow> computeFaceMetrics lms vw = None) \<and>
   (isFinite vw \<and> getLandmark lms leftEyeOuter = Some le \<and>
    getLandmark lms rightEyeOuter = Some re \<and> getLandmark lms noseTip = Some nose \<and>
    finiteLandmark le \<and> finiteLandmark re
      \<longrightarrow> (computeFaceMetrics lms vw = None \<longleftrightarrow>
             vw = Fin 0 \<or> lm_x le = lm_x re \<and> lm_y le = lm_y re))"
proof (intro conjI impI)
  assume "vw = Fin 0 \<or> getLandmark lms leftEyeOuter = None \<or>
    getLandmark lms rightEyeOuter = None \<or> getLandmark lms noseTip = None"
  then show "computeFaceMetrics lms vw = None"
    by (auto simp: computeFaceMetrics_None_iff)
next
  assume a: "isFinite vw \<and> getLandmark lms leftEyeOuter = Some le \<and>
    getLandmark lms rightEyeOuter = Some re \<and> getLandmark lms noseTip = Some nose \<and>
    finiteLandmark le \<and> finiteLandmark re"
  then have n: "truthy (distance2D le re) \<longleftrightarrow> lm_x le \<noteq> lm_x re \<or> lm_y le \<noteq> lm_y re"
    using distance2D_finite_truthy[of le re] by blast
  from a obtain w where w: "vw = Fin w"
    unfolding isFinite_iff by blast
  show "computeFaceMetrics lms vw = None \<longleftrightarrow>
          vw = Fin 0 \<or> lm_x le = lm_x re \<and> lm_y le = lm_y re"
    using a n by (auto simp add: computeFaceMetrics_None_iff w)
qed

text \<open>Width \<open>0\<close>; no landmarks at all; both eyes at \<open>(0.4, 0.5)\<close>; and a well-formed face
  on a 1280 pixel frame, which gets its metrics.\<close>

theorem computeFaceMetrics_none_cases_witness:
  "computeFaceMetrics
     (faceWith (pt (3 / 5) (1 / 2)) (pt (2 / 5) (1 / 2)) (pt (1 / 2) (1 / 2))) (Fin 0) = None \<and>
   computeFaceMetrics [] (Fin 1280) = None \<and>
   computeFaceMetrics
     (faceWith (pt (2 / 5) (1 / 2)) (pt (2 / 5) (1 / 2)) (pt (1 / 2) (1 / 2))) (Fin 1280) = None \<and>
   computeFaceMetrics
     (faceWith (pt (3 / 5) (1 / 2)) (pt (2 / 5) (1 / 2)) (pt (1 / 2) (1 / 2))) (Fin 1280) \<noteq> None"
  using
    computeFaceMetrics_none_cases
      [of "Fin 0" "faceWith (pt (3 / 5) (1 / 2)) (pt (2 / 5) (1 / 2)) (pt (1 / 2) (1 / 2))"]
    computeFaceMetrics_none_cases [of "Fin 1280" "[]"]
    computeFaceMetrics_none_cases
      [of "Fin 1280" "faceWith (pt (2 / 5) (1 / 2)) (pt (2 / 5) (1 / 2)) (pt (1 / 2) (1 / 2))"
          "pt (2 / 5) (1 / 2)" "pt (2 / 5) (1 / 2)" "pt (1 / 2) (1 / 2)"]
    computeFaceMetrics_none_cases
      [of "Fin 1280" "faceWith (pt (3 / 5) (1 / 2)) (pt (2 / 5) (1 / 2)) (pt (1 / 2) (1 / 2))"
          "pt (3 / 5) (1 / 2)" "pt (2 / 5) (1 / 2)" "pt (1 / 2) (1 / 2)"]
  by simp




section \<open>The event throttle\<close>

text \<open>A call of \<open>postEvent\<close> either changes nothing or stores the clock value under the
  key, appends the record and sends the request.\<close>

lemma postEvent_cases:
  "postEvent st k cat knd sev msg now rnd = st \<or>
   postEvent st k cat knd sev msg now rnd =
     st\<lparr>lastEventRef := (lastEventRef st)(k \<mapsto> now),
        events := drop (length (events st) - 19) (events st) @
          [\<lparr>ev_id = showInt now @ ''-'' @ rnd, ts = now, message = msg, severity = sev,
            kind = knd\<rparr>],
        requests := requests st @
          [\<lparr>session_id = sessionId st, p_kind = knd, p_severity = sev, p_message = msg,
            p_ts = now\<rparr>]\<rparr>"
  by (simp add: postEvent_def Let_def)

text \<open>The request log grows exactly when a record is made, so it tells an admitted call
  from a suppressed one. A call is suppressed exactly when the flag of its category is
  off or the key has a nonzero clock value less than 4000 ms old.\<close>

lemma postEvent_requests_eq_iff:
  "requests (postEvent st k cat knd sev msg now rnd) = requests st \<longleftrightarrow>
     \<not> isFlagEnabled st cat \<or>
     (\<exists>t. lastEventRef st k = Some t \<and> t \<noteq> 0 \<and> now - t < 4000)"
  by (auto simp: postEvent_def Let_def split: option.splits)

lemma postEvent_unchanged_iff:
  "postEvent st k cat knd sev msg now rnd = st \<longleftrightarrow>
     requests (postEvent st k cat knd sev msg now rnd) = requests st"
proof
  assume "postEvent st k cat knd sev msg now rnd = st"
  then show "requests (postEvent st k cat knd sev msg now rnd) = requests st"
    by simp
next
  assume "requests (postEvent st k cat knd sev msg now rnd) = requests st"
  then have "\<not> isFlagEnabled st cat \<or>
     (\<exists>t. lastEventRef st k = Some t \<and> t \<noteq> 0 \<and> now - t < 4000)"
    by (simp only: postEvent_requests_eq_iff)
  then show "postEvent st k cat knd sev msg now rnd = st"
    by (auto simp: postEvent_def)
qed

lemma postEvent_config [simp]:
  "mode (postEvent st k cat knd sev msg now rnd) = mode st"
  "individualFlags (postEvent st k cat knd sev msg now rnd) = individualFlags st"
  "teamFlags (postEvent st k cat knd sev msg now rnd) = teamFlags st"
  "teamLimit (postEvent st k cat knd sev msg now rnd) = teamLimit st"
  "proctor (postEvent st k cat knd sev msg now rnd) = proctor st"
  "sessionId (postEvent st k cat knd sev msg now rnd) = sessionId st"
  by (simp_all add: postEvent_def Let_def)

lemma isFlagEnabled_postEvent [simp]:
  "isFlagEnabled (postEvent st k cat knd sev msg now rnd) c = isFlagEnabled st c"
  by (simp add: isFlagEnabled_def)

lemma postEvent_other_key:
  "k' \<noteq> k \<Longrightarrow> lastEventRef (postEvent st k cat knd sev msg now rnd) k' = lastEventRef st k'"
  by (simp add: postEvent_def Let_def)

lemmas app_consts =
  postEvent_def Let_def initialAppState_def isFlagEnabled_def defaultIndividualFlags_def
  defaultTeamFlags_def

text \<open>With a nonzero first clock value the cooldown works as the specification's example
  has it: after an admission at 1, the same key is suppressed at 1001 and admitted at 4001.\<close>

lemma postEvent_cooldown_from_one:
  "map ts (events (postEvent (postEvent (initialAppState ''s1'') ''yaw'' CatGaze KindVideo
       SevWarn ''Viewer looking away from screen'' 1 ''a1'') ''yaw'' CatGaze KindVideo SevWarn
       ''Viewer looking away from screen'' 1001 ''b2'')) = [1] \<and>
   map ts (events (postEvent (postEvent (initialAppState ''s1'') ''yaw'' CatGaze KindVideo
       SevWarn ''Viewer looking away from screen'' 1 ''a1'') ''yaw'' CatGaze KindVideo SevWarn
       ''Viewer looking away from screen'' 4001 ''b2'')) = [1, 4001]"
  by (simp add: app_consts)

text \<open>
  The components test the flag of a category before they call \<open>postEvent\<close>, and the
  start of the capture posts \<open>system\<close> events only. So every call that a step makes
  passes the flag gate of \<open>postEvent\<close>, and only the cooldown decides about it.
\<close>

lemma step_calls_enabled:
  assumes "wellMounted st" and "c \<in> set (fst (step a st))"
  shows "isFlagEnabled st (category c)"
proof (cases "proctor st")
  case (IndividualProctor s)
  with assms(1) have m: "mode st = Individual"
    by (simp add: wellMounted_def)
  from assms(2) IndividualProctor show ?thesis
    by (cases a)
      (auto simp: m isFlagEnabled_def frameCalls_def analyze_def analyzeVideo_def
        analyzeAudio_def runDetector_def startStreams_def Let_def
        split: prod.splits option.splits list.splits if_splits)
next
  case (TeamProctor s)
  with assms(1) have m: "mode st = Team"
    by (simp add: wellMounted_def)
  from assms(2) TeamProctor show ?thesis
    by (cases a)
      (auto simp: m isFlagEnabled_def frameCalls_def analyzeTeam_def startStream_def Let_def
        split: prod.splits option.splits list.splits if_splits)
qed

text \<open>
  The throttle table holds clock values only: it is empty in a fresh session, and a call
  of \<open>postEvent\<close> at a nonzero clock value puts no \<open>0\<close> into it, nor does a whole
  callback whose clock values are nonzero.
\<close>

lemma initialAppState_table [simp]: "lastEventRef (initialAppState sid) k = None"
  by (simp add: initialAppState_def)

lemma postEvent_table_nonzero:
  assumes "now \<noteq> 0" and "lastEventRef st k' \<noteq> Some 0"
  shows "lastEventRef (postEvent st k cat knd sev msg now rnd) k' \<noteq> Some 0"
  using assms postEvent_cases[of st k cat knd sev msg now rnd]
  by (auto split: if_splits)

lemma deliverAll_table_nonzero:
  assumes "\<And>j. fst (clock j) \<noteq> 0" and "\<And>k. lastEventRef st k \<noteq> Some 0"
  shows "lastEventRef (deliverAll st cs clock i) k \<noteq> Some 0"
  using assms(2)
proof (induction cs arbitrary: st i k)
  case Nil
  then show ?case by simp
next
  case (Cons c cs)
  have "\<And>k. lastEventRef (deliver st c (fst (clock i)) (snd (clock i))) k \<noteq> Some 0"
    unfolding deliver_def by (rule postEvent_table_nonzero) (rule assms(1), rule Cons.prems)
  from Cons.IH[OF this] show ?case by simp
qed

section \<open>Claims about the throttle and the flag gate\<close>

text \<open>
  C1, as stated: for every key and every time \<open>now\<close>, a candidate is admitted exactly
  when its key is absent from the table or \<open>now - lastEmitted[k] \<ge> 4000\<close>; in
  particular, after an admission of \<open>yaw\<close> at \<open>t = 0\<close> a candidate at \<open>t = 1000\<close> is
  suppressed. The code tests \<^verbatim>\<open>last && now - last < 4000\<close>, in which a stored \<open>0\<close> reads
  as no entry. At the clock values of the claim's own example, in a fresh session with the
  gaze flag on: \<open>yaw\<close> at \<open>0\<close> is admitted and stores \<open>0\<close>; \<open>yaw\<close> at \<open>1000\<close> is admitted
  again (two records, the table now holds \<open>1000\<close>), although the key is present and
  \<open>1000 - 0 < 4000\<close>.
\<close>

theorem postEvent_zero_clock_counterexample:
  "lastEventRef
     (postEvent (initialAppState ''s1'') ''yaw'' CatGaze KindVideo SevWarn
        ''Viewer looking away from screen'' 0 ''a1'') ''yaw'' = Some 0 \<and>
   1000 - 0 < (4000 :: int) \<and>
   map ts (events
     (postEvent
        (postEvent (initialAppState ''s1'') ''yaw'' CatGaze KindVideo SevWarn
           ''Viewer looking away from screen'' 0 ''a1'')
        ''yaw'' CatGaze KindVideo SevWarn ''Viewer looking away from screen'' 1000 ''b2'')) =
     [0, 1000] \<and>
   lastEventRef
     (postEvent
        (postEvent (initialAppState ''s1'') ''yaw'' CatGaze KindVideo SevWarn
           ''Viewer looking away from screen'' 0 ''a1'')
        ''yaw'' CatGaze KindVideo SevWarn ''Viewer looking away from screen'' 1000 ''b2'')
     ''yaw'' = Some 1000"
  by (simp add: app_consts)

text \<open>
  C1, amended. The table holds values of \<^verbatim>\<open>Date.now()\<close> only, and the clock of a running
  browser does not read \<open>0\<close>. For every candidate with key \<open>k\<close> whose category flag is
  on (as it is for every call the components make), every clock value \<open>now\<close> and every
  table that holds no \<open>0\<close> for \<open>k\<close>: the candidate is admitted exactly when \<open>k\<close> is
  absent from the table or \<open>now - lastEmitted[k] \<ge> 4000\<close>; an admitted candidate makes
  a record stamped \<open>now\<close> and sets \<open>lastEmitted[k] = now\<close>; a suppressed one changes
  nothing; a call at a nonzero clock value puts no \<open>0\<close> into the table. In particular,
  after an admission of a key at a clock value \<open>now \<noteq> 0\<close>, a candidate of the same key and
  category at \<open>now + 1000\<close> is suppressed and one at \<open>now + 4001\<close> is admitted.
\<close>

theorem postEvent_cooldown_rule:
  assumes "isFlagEnabled st cat" and "lastEventRef st k \<noteq> Some 0"
  shows
    "(requests (postEvent st k cat knd sev msg now rnd) \<noteq> requests st \<longleftrightarrow>
        lastEventRef st k = None \<or> (\<exists>t. lastEventRef st k = Some t \<and> 4000 \<le> now - t)) \<and>
     (requests (postEvent st k cat knd sev msg now rnd) \<noteq> requests st \<longrightarrow>
        lastEventRef (postEvent st k cat knd sev msg now rnd) k = Some now \<and>
        map ts (events (postEvent st k cat knd sev msg now rnd)) =
          map ts (drop (length (events st) - 19) (events st)) @ [now] \<and>
        map p_ts (requests (postEvent st k cat knd sev msg now rnd)) =
          map p_ts (requests st) @ [now]) \<and>
     (requests (postEvent st k cat knd sev msg now rnd) = requests st \<longrightarrow>
        postEvent st k cat knd sev msg now rnd = st) \<and>
     (now \<noteq> 0 \<and> lastEventRef st k' \<noteq> Some 0 \<longrightarrow>
        lastEventRef (postEvent st k cat knd sev msg now rnd) k' \<noteq> Some 0) \<and>
     (now \<noteq> 0 \<and> requests (postEvent st k cat knd sev msg now rnd) \<noteq> requests st \<longrightarrow>
        postEvent (postEvent st k cat knd sev msg now rnd) k cat knd' sev' msg' (now + 1000) rnd'
          = postEvent st k cat knd sev msg now rnd \<and>
        requests
          (postEvent (postEvent st k cat knd sev msg now rnd) k cat knd' sev' msg' (now + 4001)
             rnd')
          \<noteq> requests (postEvent st k cat knd sev msg now rnd))"
proof (intro conjI impI)
  show rule: "requests (postEvent st k cat knd sev msg now rnd) \<noteq> requests st \<longleftrightarrow>
      lastEventRef st k = None \<or> (\<exists>t. lastEventRef st k = Some t \<and> 4000 \<le> now - t)"
    using assms by (cases "lastEventRef st k") (auto simp: postEvent_requests_eq_iff)
next
  assume adm: "requests (postEvent st k cat knd sev msg now rnd) \<noteq> requests st"
  then have eq: "postEvent st k cat knd sev msg now rnd =
     st\<lparr>lastEventRef := (lastEventRef st)(k \<mapsto> now),
        events := drop (length (events st) - 19) (events st) @
          [\<lparr>ev_id = showInt now @ ''-'' @ rnd, ts = now, message = msg, severity = sev,
            kind = knd\<rparr>],
        requests := requests st @
          [\<lparr>session_id = sessionId st, p_kind = knd, p_severity = sev, p_message = msg,
            p_ts = now\<rparr>]\<rparr>"
    using postEvent_cases[of st k cat knd sev msg now rnd] by auto
  show "lastEventRef (postEvent st k cat knd sev msg now rnd) k = Some now"
    by (simp add: eq)
  show "map ts (events (postEvent st k cat knd sev msg now rnd)) =
      map ts (drop (length (events st) - 19) (events st)) @ [now]"
    by (simp add: eq)
  show "map p_ts (requests (postEvent st k cat knd sev msg now rnd)) =
      map p_ts (requests st) @ [now]"
    by (simp add: eq)
next
  assume "requests (postEvent st k cat knd sev msg now rnd) = requests st"
  then show "postEvent st k cat knd sev msg now rnd = st"
    by (simp add: postEvent_unchanged_iff)
next
  assume "now \<noteq> 0 \<and> lastEventRef st k' \<noteq> Some 0"
  then show "lastEventRef (postEvent st k cat knd sev msg now rnd) k' \<noteq> Some 0"
    by (simp add: postEvent_table_nonzero)
next
  assume a: "now \<noteq> 0 \<and> requests (postEvent st k cat knd sev msg now rnd) \<noteq> requests st"
  then have t: "lastEventRef (postEvent st k cat knd sev msg now rnd) k = Some now"
    using postEvent_cases[of st k cat knd sev msg now rnd] by auto
  have "requests
      (postEvent (postEvent st k cat knd sev msg now rnd) k cat knd' sev' msg' (now + 1000) rnd')
      = requests (postEvent st k cat knd sev msg now rnd)"
    using a by (simp add: postEvent_requests_eq_iff t)
  then show "postEvent (postEvent st k cat knd sev msg now rnd) k cat knd' sev' msg'
      (now + 1000) rnd' = postEvent st k cat knd sev msg now rnd"
    by (simp add: postEvent_unchanged_iff)
  show "requests
      (postEvent (postEvent st k cat knd sev msg now rnd) k cat knd' sev' msg' (now + 4001) rnd')
      \<noteq> requests (postEvent st k cat knd sev msg now rnd)"
    using assms(1) by (simp add: postEvent_requests_eq_iff t)
qed

text \<open>
  A fresh session with the gaze flag on and the clock at 1700000000000: \<open>yaw\<close> is absent
  and admitted; at 1700000001000 it is suppressed and at 1700000004001 admitted. And
  after \<open>no-face\<close> at 5000: \<open>no-face\<close> at 6000 is suppressed, at 9000 admitted.
\<close>

theorem postEvent_cooldown_rule_witness:
  "isFlagEnabled (initialAppState ''s1'') CatGaze \<and>
   lastEventRef (initialAppState ''s1'') ''yaw'' = None \<and>
   lastEventRef
     (postEvent (initialAppState ''s1'') ''yaw'' CatGaze KindVideo SevWarn
        ''Viewer looking away from screen'' 1700000000000 ''a1'') ''yaw''
     = Some 1700000000000 \<and>
   map ts (events
     (postEvent (initialAppState ''s1'') ''yaw'' CatGaze KindVideo SevWarn
        ''Viewer looking away from screen'' 1700000000000 ''a1'')) = [1700000000000] \<and>
   postEvent
     (postEvent (initialAppState ''s1'') ''yaw'' CatGaze KindVideo SevWarn
        ''Viewer looking away from screen'' 1700000000000 ''a1'')
     ''yaw'' CatGaze KindVideo SevWarn ''Viewer looking away from screen'' 1700000001000 ''b2''
     = postEvent (initialAppState ''s1'') ''yaw'' CatGaze KindVideo SevWarn
         ''Viewer looking away from screen'' 1700000000000 ''a1'' \<and>
   requests
     (postEvent
        (postEvent (initialAppState ''s1'') ''yaw'' CatGaze KindVideo SevWarn
           ''Viewer looking away from screen'' 1700000000000 ''a1'')
        ''yaw'' CatGaze KindVideo SevWarn ''Viewer looking away from screen'' 1700000004001
        ''c3'')
     \<noteq> requests
         (postEvent (initialAppState ''s1'') ''yaw'' CatGaze KindVideo SevWarn
            ''Viewer looking away from screen'' 1700000000000 ''a1'') \<and>
   isFlagEnabled afterNoFace CatFaces \<and>
   lastEventRef afterNoFace ''no-face'' = Some 5000 \<and>
   postEvent afterNoFace ''no-face'' CatFaces KindVideo SevWarn ''No face detected'' 6000 ''b2''
     = afterNoFace \<and>
   lastEventRef
     (postEvent afterNoFace ''no-face'' CatFaces KindVideo SevWarn ''No face detected'' 9000
        ''b2'') ''no-face'' = Some 9000"
proof -
  have fresh: "isFlagEnabled (initialAppState ''s1'') CatGaze"
    "lastEventRef (initialAppState ''s1'') ''yaw'' = None"
    "events (initialAppState ''s1'') = []"
    by (simp_all add: app_consts)
  have later: "isFlagEnabled afterNoFace CatFaces"
    "lastEventRef afterNoFace ''no-face'' = Some 5000"
    by (simp_all add: afterNoFace_def app_consts)
  show ?thesis
    using
      postEvent_cooldown_rule
        [of "initialAppState ''s1''" CatGaze "''yaw''" KindVideo SevWarn
            "''Viewer looking away from screen''" 1700000000000 "''a1''" "''yaw''"
            KindVideo SevWarn "''Viewer looking away from screen''" "''b2''"]
      postEvent_cooldown_rule
        [of "initialAppState ''s1''" CatGaze "''yaw''" KindVideo SevWarn
            "''Viewer looking away from screen''" 1700000000000 "''a1''" "''yaw''"
            KindVideo SevWarn "''Viewer looking away from screen''" "''c3''"]
      postEvent_cooldown_rule
        [of afterNoFace CatFaces "''no-face''" KindVideo SevWarn "''No face detected''" 6000
            "''b2''"]
      postEvent_cooldown_rule
        [of afterNoFace CatFaces "''no-face''" KindVideo SevWarn "''No face detected''" 9000
            "''b2''"]
      fresh later
    by simp
qed

text \<open>
  C7. The throttle clocks are per key. A call of \<open>postEvent\<close> for key \<open>k\<close> leaves the
  entry of every other key \<open>k'\<close> as it was. A suppressed call (one that makes no record,
  so sends no request) leaves the whole state unchanged: throttle table, event list and
  all. An admitted call changes the table at \<open>k\<close> only, to the clock value. And whether
  a call for \<open>k\<close> is suppressed does not depend on an earlier call for another key \<open>k'\<close>.
\<close>

theorem postEvent_per_key_frame:
  "(k' \<noteq> k \<longrightarrow>
      lastEventRef (postEvent st k cat knd sev msg now rnd) k' = lastEventRef st k') \<and>
   (requests (postEvent st k cat knd sev msg now rnd) = requests st \<longrightarrow>
      postEvent st k cat knd sev msg now rnd = st) \<and>
   (requests (postEvent st k cat knd sev msg now rnd) \<noteq> requests st \<longrightarrow>
      lastEventRef (postEvent st k cat knd sev msg now rnd) = (lastEventRef st)(k \<mapsto> now)) \<and>
   (k' \<noteq> k \<longrightarrow>
      (requests (postEvent (postEvent st k' cat' knd' sev' msg' now' rnd')
                   k cat knd sev msg now rnd)
         = requests (postEvent st k' cat' knd' sev' msg' now' rnd')) =
      (requests (postEvent st k cat knd sev msg now rnd) = requests st))"
proof (intro conjI impI)
  assume "k' \<noteq> k"
  then show "lastEventRef (postEvent st k cat knd sev msg now rnd) k' = lastEventRef st k'"
    by (rule postEvent_other_key)
next
  assume "requests (postEvent st k cat knd sev msg now rnd) = requests st"
  then show "postEvent st k cat knd sev msg now rnd = st"
    by (simp add: postEvent_unchanged_iff)
next
  assume "requests (postEvent st k cat knd sev msg now rnd) \<noteq> requests st"
  then show "lastEventRef (postEvent st k cat knd sev msg now rnd) =
      (lastEventRef st)(k \<mapsto> now)"
    using postEvent_cases[of st k cat knd sev msg now rnd] by auto
next
  assume "k' \<noteq> k"
  then have "lastEventRef (postEvent st k' cat' knd' sev' msg' now' rnd') k = lastEventRef st k"
    by (simp add: postEvent_other_key)
  then show "(requests (postEvent (postEvent st k' cat' knd' sev' msg' now' rnd')
                   k cat knd sev msg now rnd)
         = requests (postEvent st k' cat' knd' sev' msg' now' rnd')) =
      (requests (postEvent st k cat knd sev msg now rnd) = requests st)"
    by (simp add: postEvent_requests_eq_iff)
qed

text \<open>After \<open>no-face\<close> at 5000: \<open>no-face\<close> at 6000 is suppressed and changes nothing,
  \<open>multi-face\<close> at 6000 is admitted and leaves the clock of \<open>no-face\<close> at 5000.\<close>

theorem postEvent_per_key_frame_witness:
  "''multi-face'' \<noteq> ''no-face'' \<and>
   requests (postEvent afterNoFace ''no-face'' CatFaces KindVideo SevWarn
               ''No face detected'' 6000 ''b2'') = requests afterNoFace \<and>
   postEvent afterNoFace ''no-face'' CatFaces KindVideo SevWarn
     ''No face detected'' 6000 ''b2'' = afterNoFace \<and>
   requests (postEvent afterNoFace ''multi-face'' CatFaces KindVideo SevWarn
               ''Multiple faces detected'' 6000 ''c3'') \<noteq> requests afterNoFace \<and>
   lastEventRef (postEvent afterNoFace ''multi-face'' CatFaces KindVideo SevWarn
                   ''Multiple faces detected'' 6000 ''c3'') ''no-face'' = Some 5000 \<and>
   lastEventRef (postEvent afterNoFace ''multi-face'' CatFaces KindVideo SevWarn
                   ''Multiple faces detected'' 6000 ''c3'') ''multi-face'' = Some 6000"
proof -
  have t: "lastEventRef afterNoFace ''no-face'' = Some 5000"
    "lastEventRef afterNoFace ''multi-face'' = None"
    "isFlagEnabled afterNoFace CatFaces"
    by (simp_all add: afterNoFace_def app_consts)
  have suppressed: "requests (postEvent afterNoFace ''no-face'' CatFaces KindVideo SevWarn
      ''No face detected'' 6000 ''b2'') = requests afterNoFace"
    by (simp add: postEvent_requests_eq_iff t)
  have admitted: "requests (postEvent afterNoFace ''multi-face'' CatFaces KindVideo SevWarn
      ''Multiple faces detected'' 6000 ''c3'') \<noteq> requests afterNoFace"
    by (simp add: postEvent_requests_eq_iff t)
  show ?thesis
    using
      postEvent_per_key_frame
        [of "''multi-face''" "''no-face''" afterNoFace CatFaces KindVideo SevWarn
            "''No face detected''" 6000 "''b2''"]
      postEvent_per_key_frame
        [of "''no-face''" "''multi-face''" afterNoFace CatFaces KindVideo SevWarn
            "''Multiple faces detected''" 6000 "''c3''"]
      suppressed admitted t
    by simp
qed

text \<open>
  C10. The flag gate is open for every category without an entry in the flag object of the
  active mode: \<open>isFlagEnabled\<close> is true for it whatever the flags are set to, and a
  candidate of such a category with a key not yet in the throttle table is recorded. In
  particular this holds for \<open>system\<close> in both modes and for \<open>capacity\<close> and \<open>presence\<close>
  in individual mode.
\<close>

theorem isFlagEnabled_absent_category:
  "(mode st = Individual \<and> lookupIndividualFlags (individualFlags st) cat = None \<or>
    mode st = Team \<and> lookupTeamFlags (teamFlags st) cat = None \<longrightarrow>
      isFlagEnabled st cat \<and>
      (lastEventRef st k = None \<longrightarrow>
         requests (postEvent st k cat knd sev msg now rnd) =
           requests st @
             [\<lparr>session_id = sessionId st, p_kind = knd, p_severity = sev, p_message = msg,
               p_ts = now\<rparr>])) \<and>
   isFlagEnabled st CatSystem \<and>
   (mode st = Individual \<longrightarrow> isFlagEnabled st CatCapacity \<and> isFlagEnabled st CatPresence)"
  by (auto simp: isFlagEnabled_def postEvent_def Let_def)

text \<open>Every individual flag off: a \<open>system\<close> candidate still passes the gate and is
  recorded.\<close>

theorem isFlagEnabled_absent_category_witness:
  "mode allFlagsOff = Individual \<and>
   lookupIndividualFlags (individualFlags allFlagsOff) CatSystem = None \<and>
   lastEventRef allFlagsOff ''media-on'' = None \<and>
   isFlagEnabled allFlagsOff CatSystem \<and>
   isFlagEnabled allFlagsOff CatCapacity \<and>
   \<not> isFlagEnabled allFlagsOff CatFaces \<and>
   requests (postEvent allFlagsOff ''media-on'' CatSystem KindSystem SevInfo
               ''Camera and mic granted'' 7000 ''d4'') =
     [\<lparr>session_id = ''s1'', p_kind = KindSystem, p_severity = SevInfo,
       p_message = ''Camera and mic granted'', p_ts = 7000\<rparr>]"
proof -
  have h: "mode allFlagsOff = Individual"
    "lookupIndividualFlags (individualFlags allFlagsOff) CatSystem = None"
    "lastEventRef allFlagsOff ''media-on'' = None"
    "requests allFlagsOff = []" "sessionId allFlagsOff = ''s1''"
    "\<not> isFlagEnabled allFlagsOff CatFaces"
    by (simp_all add: allFlagsOff_def initialAppState_def isFlagEnabled_def)
  show ?thesis
    using
      isFlagEnabled_absent_category
        [of allFlagsOff CatSystem "''media-on''" KindSystem SevInfo
            "''Camera and mic granted''" 7000 "''d4''"]
      h
    by simp
qed

section \<open>The event deriver\<close>

text \<open>The gaze test \<^verbatim>\<open>Math.abs(yawDeg) > threshold\<close> on a returned yaw, which is \<open>NaN\<close>
  or finite: it holds exactly for a finite yaw whose absolute value exceeds the threshold.\<close>

lemma js_gt_abs_Fin:
  "js_gt (Math_abs v) (Fin t) \<longleftrightarrow> (\<exists>y. v = Fin y \<and> t < \<bar>y\<bar>) \<or> v = PosInf \<or> v = NegInf"
  by (cases v) (auto simp: js_gt_def)

lemma yaw_NaN_or_Fin:
  "computeFaceMetrics lms w = Some m \<Longrightarrow> yawDeg m = NaN \<or> (\<exists>y. yawDeg m = Fin y)"
  using metrics_NaN_or_inRange[of lms w m] inRange_Fin[of "- 90" 90 "yawDeg m"] by blast

lemma js_gt_abs_yaw:
  assumes "computeFaceMetrics lms w = Some m"
  shows "js_gt (Math_abs (yawDeg m)) (Fin t) \<longleftrightarrow> (\<exists>y. yawDeg m = Fin y \<and> t < \<bar>y\<bar>)"
  using yaw_NaN_or_Fin[OF assms] by (auto simp: js_gt_abs_Fin)

lemma analyzeVideo_gaze:
  assumes "faceLandmarks f = primaryFace # others"
    and "computeFaceMetrics primaryFace (videoWidth f) = Some m"
  shows "fst (analyzeVideo flags (Some f) s) =
      (if faces flags \<and> 1 < length (faceLandmarks f)
       then [\<lparr>key = ''multi-face'', category = CatFaces, c_kind = KindVideo,
              c_severity = SevWarn, c_message = ''Multiple faces detected''\<rparr>] else []) @
      (if js_lt (computeFaceArea primaryFace) MIN_FACE_AREA \<and> faces flags
       then [\<lparr>key = ''face-small'', category = CatFaces, c_kind = KindVideo,
              c_severity = SevWarn, c_message = ''Face too small for reliable landmarks''\<rparr>]
       else []) @
      (if gaze flags \<and> js_gt (Math_abs (yawDeg m)) (Fin 35)
       then [\<lparr>key = ''yaw'', category = CatGaze, c_kind = KindVideo, c_severity = SevWarn,
              c_message = ''Viewer looking away from screen''\<rparr>] else [])"
  using assms by (simp add: analyzeVideo_def Let_def GAZE_YAW_THRESHOLD_def)

lemma analyze_calls:
  "fst (analyze flags fr analyser s) =
     fst (analyzeVideo flags fr s) @
     (case analyser of None \<Rightarrow> []
      | Some dataArray \<Rightarrow>
          fst (analyzeAudio flags (computeRms dataArray) (snd (analyzeVideo flags fr s))))"
  by (simp add: analyze_def split: prod.splits option.splits)

lemma analyzeTeam_gaze:
  assumes "faceLandmarks f = primaryFace # others"
    and "computeFaceMetrics primaryFace (videoWidth f) = Some m"
  shows "fst (analyzeTeam limit flags (Some f) now s) =
      (if capacity flags \<and> limit < length (faceLandmarks f)
       then [\<lparr>key = ''team-overflow'', category = CatCapacity, c_kind = KindVideo,
              c_severity = SevWarn,
              c_message = showNat (length (faceLandmarks f)) @ '' people detected (limit '' @
                          showNat limit @ '')''\<rparr>] else []) @
      (if team_gaze flags \<and> js_gt (Math_abs (yawDeg m)) (Fin 40)
       then [\<lparr>key = ''team-yaw'', category = CatGaze, c_kind = KindVideo, c_severity = SevWarn,
              c_message = ''Primary viewer looking away''\<rparr>] else [])"
  using assms by (simp add: analyzeTeam_def Let_def GAZE_YAW_THRESHOLD_team_def)

lemma showNat_90: "showNat 90 = ''90''"
  by (simp add: showNat.simps)

section \<open>Claims about the event deriver\<close>

text \<open>
  C3, as stated: from silence the classifier goes to speech exactly when the RMS exceeds
  \<open>0.05\<close>. The transitions are inside \<^verbatim>\<open>if (flags.audio)\<close>: with the audio flag off, in
  silence, an RMS of \<open>0.06\<close> leaves the state at silence.
\<close>

theorem analyzeAudio_flag_off_counterexample:
  "\<not> speechActive initialIndividualState \<and>
   js_gt (Fin (3 / 50)) speechThresholdOn \<and>
   \<not> speechActive (snd (analyzeAudio (defaultIndividualFlags\<lparr>audio := False\<rparr>) (Fin (3 / 50))
                        initialIndividualState))"
  by (simp add: analyzeAudio_def Let_def initialIndividualState_def defaultIndividualFlags_def
      js_gt_def speechThresholdOn_def)

text \<open>
  C3, amended. While the audio flag is enabled, the audio classifier is a two-state
  hysteresis machine over the per-tick RMS: from silence it goes to speech exactly when
  \<open>rms > 0.05\<close>, from speech it goes to silence exactly when \<open>rms < 0.025\<close>, and
  otherwise the state is unchanged; a \<open>speech-on\<close> or \<open>speech-off\<close> call is made exactly
  on the transition. Starting in silence, the RMS sequence \<open>[0.0, 0.06, 0.03, 0.02]\<close> gives
  \<open>speech-on\<close> at index 1, nothing at index 2 and \<open>speech-off\<close> at index 3.
\<close>

theorem analyzeAudio_hysteresis:
  assumes "audio flags"
  shows "(\<not> speechActive s \<longrightarrow>
            speechActive (snd (analyzeAudio flags rms s)) = js_gt rms (Fin (5 / 100))) \<and>
         (speechActive s \<longrightarrow>
            speechActive (snd (analyzeAudio flags rms s)) = (\<not> js_lt rms (Fin (25 / 1000)))) \<and>
         map key (fst (analyzeAudio flags rms s)) =
           (if \<not> speechActive s \<and> speechActive (snd (analyzeAudio flags rms s))
            then [''speech-on'']
            else if speechActive s \<and> \<not> speechActive (snd (analyzeAudio flags rms s))
            then [''speech-off'']
            else []) \<and>
         (\<not> speechActive s \<longrightarrow>
            audioTrace flags [Fin 0, Fin (6 / 100), Fin (3 / 100), Fin (2 / 100)] s =
              [[], [''speech-on''], [], [''speech-off'']])"
  using assms
  by (simp add: analyzeAudio_def Let_def js_gt_def speechThresholdOn_def speechThresholdOff_def)

theorem analyzeAudio_hysteresis_witness:
  "audio defaultIndividualFlags \<and>
   \<not> speechActive initialIndividualState \<and>
   speechActive (snd (analyzeAudio defaultIndividualFlags (Fin (3 / 50)) initialIndividualState)) \<and>
   map key (fst (analyzeAudio defaultIndividualFlags (Fin (3 / 50)) initialIndividualState)) =
     [''speech-on''] \<and>
   audioTrace defaultIndividualFlags [Fin 0, Fin (6 / 100), Fin (3 / 100), Fin (2 / 100)]
     initialIndividualState = [[], [''speech-on''], [], [''speech-off'']]"
  using analyzeAudio_hysteresis
    [of defaultIndividualFlags initialIndividualState "Fin (3 / 50)"]
  by (simp add: defaultIndividualFlags_def initialIndividualState_def js_gt_def)

text \<open>
  C5, as stated: the message of the \<open>yolo-gadget\<close> candidate names the label and the
  confidence. The message is \<^verbatim>\<open>Gadget detected: ${label}\<close>: a laptop seen with confidence
  \<open>0.9\<close> and one seen with confidence \<open>0.5\<close> give the same candidate, whose message has
  no confidence in it; the confidence goes to the component's own last-hit text only.
\<close>

theorem runDetector_message_counterexample:
  "fst (runDetector defaultIndividualFlags (Some [\<lparr>label = ''laptop'', score = Fin (9 / 10)\<rparr>])
          initialIndividualState) =
     [\<lparr>key = ''yolo-gadget'', category = CatGadgets, c_kind = KindVideo, c_severity = SevWarn,
       c_message = ''Gadget detected: laptop''\<rparr>] \<and>
   fst (runDetector defaultIndividualFlags (Some [\<lparr>label = ''laptop'', score = Fin (1 / 2)\<rparr>])
          initialIndividualState) =
     [\<lparr>key = ''yolo-gadget'', category = CatGadgets, c_kind = KindVideo, c_severity = SevWarn,
       c_message = ''Gadget detected: laptop''\<rparr>] \<and>
   gadgetHit (snd (runDetector defaultIndividualFlags
                     (Some [\<lparr>label = ''laptop'', score = Fin (9 / 10)\<rparr>])
                     initialIndividualState)) = Some ''laptop (90%)''"
  by (simp add: runDetector_def Let_def defaultIndividualFlags_def gadgetLabels_def js_ge_def
      showInt_def showNat_90)

text \<open>
  C5, amended. In individual mode with the gadgets flag enabled, on every object-detector
  sample that ran, if some detection has a label in the gadget-label set and confidence
  at least \<open>0.35\<close>, a \<open>yolo-gadget\<close> candidate of category gadgets and severity warn is
  produced, whose message names the label of such a detection (and not its confidence).
\<close>

theorem runDetector_gadget_candidate:
  assumes "gadgets flags" and "d \<in> set ds" and "label d \<in> set gadgetLabels"
    and "js_ge (score d) (Fin (35 / 100))"
  shows "\<exists>g \<in> set ds. label g \<in> set gadgetLabels \<and> js_ge (score g) (Fin (35 / 100)) \<and>
           \<lparr>key = ''yolo-gadget'', category = CatGadgets, c_kind = KindVideo,
            c_severity = SevWarn, c_message = ''Gadget detected: '' @ label g\<rparr>
             \<in> set (fst (runDetector flags (Some ds) s))"
proof -
  let ?P = "\<lambda>d. label d \<in> set gadgetLabels \<and> js_ge (score d) (Fin (35 / 100))"
  from assms have "find ?P ds \<noteq> None"
    by (auto simp: find_None_iff)
  then obtain g where g: "find ?P ds = Some g" by blast
  then have "g \<in> set ds" "?P g"
    by (auto simp: find_Some_iff)
  moreover have "\<lparr>key = ''yolo-gadget'', category = CatGadgets, c_kind = KindVideo,
            c_severity = SevWarn, c_message = ''Gadget detected: '' @ label g\<rparr>
             \<in> set (fst (runDetector flags (Some ds) s))"
    using g assms(1) by (simp add: runDetector_def Let_def)
  ultimately show ?thesis by blast
qed

theorem runDetector_gadget_candidate_witness:
  "gadgets defaultIndividualFlags \<and>
   \<lparr>label = ''cell phone'', score = Fin (7 / 20)\<rparr> \<in>
     set [\<lparr>label = ''person'', score = Fin (9 / 10)\<rparr>, \<lparr>label = ''cell phone'', score = Fin (7 / 20)\<rparr>] \<and>
   ''cell phone'' \<in> set gadgetLabels \<and>
   js_ge (Fin (7 / 20)) (Fin (35 / 100)) \<and>
   \<lparr>key = ''yolo-gadget'', category = CatGadgets, c_kind = KindVideo, c_severity = SevWarn,
     c_message = ''Gadget detected: cell phone''\<rparr>
     \<in> set (fst (runDetector defaultIndividualFlags
                   (Some [\<lparr>label = ''person'', score = Fin (9 / 10)\<rparr>,
                          \<lparr>label = ''cell phone'', score = Fin (7 / 20)\<rparr>])
                   initialIndividualState))"
  using runDetector_gadget_candidate
    [of defaultIndividualFlags "\<lparr>label = ''cell phone'', score = Fin (7 / 20)\<rparr>"
        "[\<lparr>label = ''person'', score = Fin (9 / 10)\<rparr>,
          \<lparr>label = ''cell phone'', score = Fin (7 / 20)\<rparr>]" initialIndividualState]
  by (auto simp: defaultIndividualFlags_def gadgetLabels_def js_ge_def)

text \<open>
  C6. With the gaze flag enabled and a primary face whose metrics were computed, the frame
  callback makes a gaze call exactly when the yaw is a number whose absolute value is
  strictly greater than the threshold of the mode: key \<open>yaw\<close> and 35 degrees in individual
  mode, key \<open>team-yaw\<close> and 40 degrees in team mode. So at an absolute value equal to the
  threshold there is no call. Every call of category gaze is that warn-level call.
\<close>

theorem gaze_candidate_iff:
  "(gaze flags \<and> faceLandmarks f = primaryFace # others \<and>
    computeFaceMetrics primaryFace (videoWidth f) = Some m \<longrightarrow>
      (''yaw'' \<in> set (map key (fst (analyze flags (Some f) analyser s)))
         \<longleftrightarrow> (\<exists>y. yawDeg m = Fin y \<and> 35 < \<bar>y\<bar>)) \<and>
      (\<forall>c \<in> set (fst (analyze flags (Some f) analyser s)).
         category c = CatGaze \<or> key c = ''yaw'' \<longrightarrow>
           c = \<lparr>key = ''yaw'', category = CatGaze, c_kind = KindVideo, c_severity = SevWarn,
                 c_message = ''Viewer looking away from screen''\<rparr>)) \<and>
   (team_gaze tflags \<and> faceLandmarks f = primaryFace # others \<and>
    computeFaceMetrics primaryFace (videoWidth f) = Some m \<longrightarrow>
      (''team-yaw'' \<in> set (map key (fst (analyzeTeam limit tflags (Some f) now tstate)))
         \<longleftrightarrow> (\<exists>y. yawDeg m = Fin y \<and> 40 < \<bar>y\<bar>)) \<and>
      (\<forall>c \<in> set (fst (analyzeTeam limit tflags (Some f) now tstate)).
         category c = CatGaze \<or> key c = ''team-yaw'' \<longrightarrow>
           c = \<lparr>key = ''team-yaw'', category = CatGaze, c_kind = KindVideo,
                 c_severity = SevWarn, c_message = ''Primary viewer looking away''\<rparr>))"
proof (intro conjI impI)
  assume a: "gaze flags \<and> faceLandmarks f = primaryFace # others \<and>
    computeFaceMetrics primaryFace (videoWidth f) = Some m"
  then have v: "fst (analyzeVideo flags (Some f) s) =
      (if faces flags \<and> 1 < length (faceLandmarks f)
       then [\<lparr>key = ''multi-face'', category = CatFaces, c_kind = KindVideo,
              c_severity = SevWarn, c_message = ''Multiple faces detected''\<rparr>] else []) @
      (if js_lt (computeFaceArea primaryFace) MIN_FACE_AREA \<and> faces flags
       then [\<lparr>key = ''face-small'', category = CatFaces, c_kind = KindVideo,
              c_severity = SevWarn, c_message = ''Face too small for reliable landmarks''\<rparr>]
       else []) @
      (if js_gt (Math_abs (yawDeg m)) (Fin 35)
       then [\<lparr>key = ''yaw'', category = CatGaze, c_kind = KindVideo, c_severity = SevWarn,
              c_message = ''Viewer looking away from screen''\<rparr>] else [])"
    using analyzeVideo_gaze[of f primaryFace others m flags s] by simp
  from a have y: "js_gt (Math_abs (yawDeg m)) (Fin 35) \<longleftrightarrow> (\<exists>y. yawDeg m = Fin y \<and> 35 < \<bar>y\<bar>)"
    using js_gt_abs_yaw by blast
  have audio: "\<And>r s'. \<forall>c \<in> set (fst (analyzeAudio flags r s')).
      category c \<noteq> CatGaze \<and> key c \<noteq> ''yaw''"
    by (simp add: analyzeAudio_def Let_def)
  show "''yaw'' \<in> set (map key (fst (analyze flags (Some f) analyser s)))
         \<longleftrightarrow> (\<exists>y. yawDeg m = Fin y \<and> 35 < \<bar>y\<bar>)"
    unfolding y[symmetric] analyze_calls v using audio
    by (cases analyser) (force+)
  show "\<forall>c \<in> set (fst (analyze flags (Some f) analyser s)).
         category c = CatGaze \<or> key c = ''yaw'' \<longrightarrow>
           c = \<lparr>key = ''yaw'', category = CatGaze, c_kind = KindVideo, c_severity = SevWarn,
                 c_message = ''Viewer looking away from screen''\<rparr>"
    unfolding analyze_calls v using audio
    by (cases analyser) (force split: if_splits)+
next
  assume a: "team_gaze tflags \<and> faceLandmarks f = primaryFace # others \<and>
    computeFaceMetrics primaryFace (videoWidth f) = Some m"
  then have v: "fst (analyzeTeam limit tflags (Some f) now tstate) =
      (if capacity tflags \<and> limit < length (faceLandmarks f)
       then [\<lparr>key = ''team-overflow'', category = CatCapacity, c_kind = KindVideo,
              c_severity = SevWarn,
              c_message = showNat (length (faceLandmarks f)) @ '' people detected (limit '' @
                          showNat limit @ '')''\<rparr>] else []) @
      (if js_gt (Math_abs (yawDeg m)) (Fin 40)
       then [\<lparr>key = ''team-yaw'', category = CatGaze, c_kind = KindVideo, c_severity = SevWarn,
              c_message = ''Primary viewer looking away''\<rparr>] else [])"
    using analyzeTeam_gaze[of f primaryFace others m limit tflags now tstate] by simp
  from a have y: "js_gt (Math_abs (yawDeg m)) (Fin 40) \<longleftrightarrow> (\<exists>y. yawDeg m = Fin y \<and> 40 < \<bar>y\<bar>)"
    using js_gt_abs_yaw by blast
  show "''team-yaw'' \<in> set (map key (fst (analyzeTeam limit tflags (Some f) now tstate)))
         \<longleftrightarrow> (\<exists>y. yawDeg m = Fin y \<and> 40 < \<bar>y\<bar>)"
    unfolding y[symmetric] v by auto
  show "\<forall>c \<in> set (fst (analyzeTeam limit tflags (Some f) now tstate)).
         category c = CatGaze \<or> key c = ''team-yaw'' \<longrightarrow>
           c = \<lparr>key = ''team-yaw'', category = CatGaze, c_kind = KindVideo,
                 c_severity = SevWarn, c_message = ''Primary viewer looking away''\<rparr>"
    unfolding v by (auto split: if_splits)
qed

text \<open>The turned face (yaw \<open>-90\<close>) gives the call in both modes, the frontal face (yaw
  \<open>0\<close>) in neither.\<close>

theorem gaze_candidate_iff_witness:
  "gaze defaultIndividualFlags \<and>
   team_gaze (defaultTeamFlags\<lparr>team_gaze := True\<rparr>) \<and>
   computeFaceMetrics (hd (faceLandmarks turnedFrame)) (videoWidth turnedFrame) =
     Some \<lparr>distanceCm = Fin (4725 / 256), yawDeg = Fin (- 90)\<rparr> \<and>
   computeFaceMetrics (hd (faceLandmarks frontalFrame)) (videoWidth frontalFrame) =
     Some \<lparr>distanceCm = Fin (4725 / 256), yawDeg = Fin 0\<rparr> \<and>
   ''yaw'' \<in> set (map key (fst (analyze defaultIndividualFlags (Some turnedFrame) None
                                   initialIndividualState))) \<and>
   ''yaw'' \<notin> set (map key (fst (analyze defaultIndividualFlags (Some frontalFrame) None
                                   initialIndividualState))) \<and>
   ''team-yaw'' \<in> set (map key (fst (analyzeTeam 3 (defaultTeamFlags\<lparr>team_gaze := True\<rparr>)
                                        (Some turnedFrame) 9000 (initialTeamState 0)))) \<and>
   ''team-yaw'' \<notin> set (map key (fst (analyzeTeam 3 (defaultTeamFlags\<lparr>team_gaze := True\<rparr>)
                                        (Some frontalFrame) 9000 (initialTeamState 0))))"
  using
    gaze_candidate_iff
      [where flags = defaultIndividualFlags and f = turnedFrame
         and primaryFace = "faceWith (pt (3 / 5) (1 / 2)) (pt (2 / 5) (1 / 2)) (pt (7 / 10) (1 / 2))"
         and others = "[]" and m = "\<lparr>distanceCm = Fin (4725 / 256), yawDeg = Fin (- 90)\<rparr>"
         and analyser = None and s = initialIndividualState
         and tflags = "defaultTeamFlags\<lparr>team_gaze := True\<rparr>" and limit = 3 and now = 9000
         and tstate = "initialTeamState 0"]
    gaze_candidate_iff
      [where flags = defaultIndividualFlags and f = frontalFrame
         and primaryFace = "faceWith (pt (3 / 5) (1 / 2)) (pt (2 / 5) (1 / 2)) (pt (1 / 2) (1 / 2))"
         and others = "[]" and m = "\<lparr>distanceCm = Fin (4725 / 256), yawDeg = Fin 0\<rparr>"
         and analyser = None and s = initialIndividualState
         and tflags = "defaultTeamFlags\<lparr>team_gaze := True\<rparr>" and limit = 3 and now = 9000
         and tstate = "initialTeamState 0"]
  by (simp add: turnedFrame_def frontalFrame_def metrics_turned metrics_frontal
      defaultIndividualFlags_def)

section \<open>Speech calls along a run of the application\<close>

text \<open>The two trace notions compose over concatenation and are monotone in the pending
  flag.\<close>

lemma offFollowsOn_append:
  "offFollowsOn a (xs @ ys) \<longleftrightarrow> offFollowsOn a xs \<and> offFollowsOn (pendingAfter a xs) ys"
  by (induction xs arbitrary: a) auto

lemma pendingAfter_append:
  "pendingAfter a (xs @ ys) = pendingAfter (pendingAfter a xs) ys"
  by (induction xs arbitrary: a) auto

lemma offFollowsOn_mono: "offFollowsOn False ks \<Longrightarrow> offFollowsOn a ks"
  by (induction ks arbitrary: a) (auto split: if_splits)

lemma offFollowsOn_mono': "(a \<longrightarrow> b) \<Longrightarrow> offFollowsOn a ks \<Longrightarrow> offFollowsOn b ks"
  by (cases a; cases b) (auto intro: offFollowsOn_mono)

lemma pendingAfter_mono: "(a \<longrightarrow> b) \<Longrightarrow> pendingAfter a ks \<longrightarrow> pendingAfter b ks"
  by (induction ks arbitrary: a b) auto

text \<open>Calls that are not about speech leave the pending state alone.\<close>

lemma offFollowsOn_no_speech:
  "''speech-on'' \<notin> set ks \<Longrightarrow> ''speech-off'' \<notin> set ks \<Longrightarrow> offFollowsOn a ks"
  by (induction ks arbitrary: a) auto

lemma pendingAfter_no_speech:
  "''speech-on'' \<notin> set ks \<Longrightarrow> ''speech-off'' \<notin> set ks \<Longrightarrow> pendingAfter a ks = a"
  by (induction ks arbitrary: a) auto

lemmas no_speech = offFollowsOn_no_speech pendingAfter_no_speech

lemma analyzeVideo_keys:
  "''speech-on'' \<notin> key ` set (fst (analyzeVideo flags fr s))"
  "''speech-off'' \<notin> key ` set (fst (analyzeVideo flags fr s))"
  by (auto simp: analyzeVideo_def Let_def split: option.splits list.splits if_splits)

lemma analyzeVideo_speechActive [simp]:
  "speechActive (snd (analyzeVideo flags fr s)) = speechActive s"
  by (simp add: analyzeVideo_def Let_def split: option.splits list.splits)

lemma analyzeTeam_keys:
  "''speech-on'' \<notin> key ` set (fst (analyzeTeam limit flags fr now s))"
  "''speech-off'' \<notin> key ` set (fst (analyzeTeam limit flags fr now s))"
  by (auto simp: analyzeTeam_def Let_def split: option.splits list.splits if_splits)

lemma runDetector_keys:
  "''speech-on'' \<notin> key ` set (fst (runDetector flags result s))"
  "''speech-off'' \<notin> key ` set (fst (runDetector flags result s))"
  by (auto simp: runDetector_def Let_def split: option.splits if_splits)

lemma runDetector_speechActive [simp]:
  "speechActive (snd (runDetector flags result s)) = speechActive s"
  by (simp add: runDetector_def Let_def split: option.splits)

lemma analyzeAudio_pending:
  "offFollowsOn (speechActive s) (map key (fst (analyzeAudio flags rms s))) \<and>
   pendingAfter (speechActive s) (map key (fst (analyzeAudio flags rms s))) =
     speechActive (snd (analyzeAudio flags rms s))"
  by (simp add: analyzeAudio_def Let_def)


lemma analyze_state:
  "snd (analyze flags fr analyser s) =
     (case analyser of None \<Rightarrow> snd (analyzeVideo flags fr s)
      | Some dataArray \<Rightarrow>
          snd (analyzeAudio flags (computeRms dataArray) (snd (analyzeVideo flags fr s))))"
  by (simp add: analyze_def split: prod.splits option.splits)

lemma deliverAll_proctor [simp]: "proctor (deliverAll st cs clock i) = proctor st"
  by (induction cs arbitrary: st i) (simp_all add: deliver_def)

lemma speechPending_mount [simp]: "\<not> speechPending (mount m now)"
  by (cases m) (simp_all add: mount_def initialIndividualState_def)

lemma analyze_pending:
  assumes "speechActive s \<longrightarrow> a"
  shows "offFollowsOn a (map key (fst (analyze flags fr analyser s))) \<and>
         (speechActive (snd (analyze flags fr analyser s)) \<longrightarrow>
            pendingAfter a (map key (fst (analyze flags fr analyser s))))"
proof (cases analyser)
  case None
  show ?thesis
    unfolding analyze_calls analyze_state None using assms
    by (simp add: no_speech analyzeVideo_keys)
next
  case (Some dataArray)
  let ?s1 = "snd (analyzeVideo flags fr s)"
  let ?vk = "map key (fst (analyzeVideo flags fr s))"
  let ?ak = "map key (fst (analyzeAudio flags (computeRms dataArray) ?s1))"
  have v: "offFollowsOn a ?vk" "pendingAfter a ?vk = a"
    by (simp_all add: no_speech analyzeVideo_keys)
  have s1: "speechActive ?s1 \<longrightarrow> a" using assms by simp
  have au: "offFollowsOn (speechActive ?s1) ?ak"
    "pendingAfter (speechActive ?s1) ?ak =
       speechActive (snd (analyzeAudio flags (computeRms dataArray) ?s1))"
    using analyzeAudio_pending[of ?s1 flags "computeRms dataArray"] by simp_all
  have "offFollowsOn a ?ak"
    using offFollowsOn_mono'[OF s1 au(1)] .
  moreover have "speechActive (snd (analyzeAudio flags (computeRms dataArray) ?s1)) \<longrightarrow>
      pendingAfter a ?ak"
    using pendingAfter_mono[OF s1, of ?ak] au(2) by simp
  ultimately show ?thesis
    unfolding analyze_calls analyze_state Some
    by (simp add: offFollowsOn_append pendingAfter_append v)
qed

lemma frameCalls_Individual:
  "proctor st = IndividualProctor s \<Longrightarrow>
   frameCalls st fr analyser now =
     (fst (analyze (individualFlags st) fr analyser s),
      IndividualProctor (snd (analyze (individualFlags st) fr analyser s)))"
  by (simp add: frameCalls_def split: prod.splits)

lemma frameCalls_Team:
  "proctor st = TeamProctor s \<Longrightarrow>
   frameCalls st fr analyser now =
     (fst (analyzeTeam (teamLimit st) (teamFlags st) fr now s),
      TeamProctor (snd (analyzeTeam (teamLimit st) (teamFlags st) fr now s)))"
  by (simp add: frameCalls_def split: prod.splits)

lemma proctor_frameTick:
  "proctor (frameTick fr analyser now clock st) = snd (frameCalls st fr analyser now)"
  by (simp add: frameTick_def split: prod.splits)

lemma proctor_detectorTick:
  "proctor (detectorTick result clock st) =
     (case proctor st of
        IndividualProctor s \<Rightarrow>
          IndividualProctor (snd (runDetector (individualFlags st) result s))
      | TeamProctor s \<Rightarrow> TeamProctor s)"
  by (simp add: detectorTick_def split: prod.splits Proctor.splits)

lemma step_pending:
  assumes "speechPending (proctor st) \<longrightarrow> a"
  shows "offFollowsOn a (map key (fst (step x st))) \<and>
         (speechPending (proctor (snd (step x st))) \<longrightarrow>
            pendingAfter a (map key (fst (step x st))))"
proof (cases x)
  case (Frame fr analyser now clock)
  show ?thesis
  proof (cases "proctor st")
    case (IndividualProctor s)
    with assms have "speechActive s \<longrightarrow> a" by simp
    from analyze_pending[OF this, of "individualFlags st" fr analyser]
    show ?thesis
      by (simp add: Frame proctor_frameTick frameCalls_Individual[OF IndividualProctor])
  next
    case (TeamProctor s)
    then show ?thesis
      by (simp add: Frame proctor_frameTick frameCalls_Team[OF TeamProctor] no_speech
          analyzeTeam_keys)
  qed
next
  case (Sample result clock)
  show ?thesis
  proof (cases "proctor st")
    case (IndividualProctor s)
    then show ?thesis
      using assms
      by (simp add: Sample proctor_detectorTick no_speech runDetector_keys)
  next
    case (TeamProctor s)
    then show ?thesis
      by (simp add: Sample proctor_detectorTick)
  qed
next
  case (CaptureStarted granted clock)
  then show ?thesis
    using assms
    by (cases "proctor st") (simp_all add: startStreams_def startStream_def deliver_def)
next
  case (SetMode m now)
  then show ?thesis using assms by (simp add: setMode_def)
qed (insert assms, simp_all)

lemma run_pending:
  "(speechPending (proctor st) \<longrightarrow> a) \<Longrightarrow> offFollowsOn a (map key (fst (run acts st)))"
proof (induction acts arbitrary: st a)
  case Nil
  then show ?case by simp
next
  case (Cons x acts)
  from step_pending[OF Cons.prems, of x]
  have 1: "offFollowsOn a (map key (fst (step x st)))"
    and 2: "speechPending (proctor (snd (step x st))) \<longrightarrow>
              pendingAfter a (map key (fst (step x st)))"
    by simp_all
  from Cons.IH[OF 2] 1 show ?case
    by (simp add: offFollowsOn_append case_prod_beta)
qed

lemma sumSquares_loop_silent: "sumSquares_loop (replicate n 128) acc = acc"
  by (induction n arbitrary: acc) simp_all

lemma computeRms_silentWindow: "computeRms silentWindow = Fin 0"
  by (simp add: computeRms_def silentWindow_def sumSquares_loop_silent)

section \<open>Claim about switching modes\<close>

text \<open>
  C8. A switch from individual to team mode unmounts the individual component, and with
  it the speech state: team mode has no speech state, and a later return to individual
  mode mounts a component whose \<open>speechActive\<close> starts as false. So in the calls made after
  the switch, whatever happens next (frame callbacks, detector samples, further mode
  switches, flag changes), every \<open>speech-off\<close> comes after a \<open>speech-on\<close> that was itself
  made after the switch: a speech state from before the switch never produces a
  \<open>speech-off\<close>.
\<close>

theorem no_stale_speech_off:
  assumes "mode st = Individual"
  shows "proctor (setMode Team now st) = TeamProctor (initialTeamState now) \<and>
         offFollowsOn False (map key (fst (run acts (setMode Team now st)))) \<and>
         proctor (setMode Individual now' (setMode Team now st)) =
           IndividualProctor initialIndividualState \<and>
         \<not> speechActive initialIndividualState"
proof -
  have p: "proctor (setMode Team now st) = TeamProctor (initialTeamState now)"
    using assms by (simp add: setMode_def mount_def)
  then have "offFollowsOn False (map key (fst (run acts (setMode Team now st))))"
    by (intro run_pending) simp
  moreover have "proctor (setMode Individual now' (setMode Team now st)) =
           IndividualProctor initialIndividualState"
    using assms by (simp add: setMode_def mount_def)
  ultimately show ?thesis
    using p by (simp add: initialIndividualState_def)
qed

text \<open>Speech is going on in individual mode. Without a switch, a silent window gives
  \<open>speech-off\<close>. After a switch to team mode, a silent window there, a switch back and a
  silent window again give no call at all.\<close>

theorem no_stale_speech_off_witness:
  "mode speakingState = Individual \<and>
   speechPending (proctor speakingState) \<and>
   map key (fst (run [Frame None (Some silentWindow) 300 (clockAt 300)] speakingState)) =
     [''speech-off''] \<and>
   proctor (setMode Team 100 speakingState) = TeamProctor (initialTeamState 100) \<and>
   map key (fst (run [Frame None (Some silentWindow) 150 (clockAt 150), SetMode Individual 200,
                      Frame None (Some silentWindow) 300 (clockAt 300)]
                   (setMode Team 100 speakingState))) = [] \<and>
   offFollowsOn False
     (map key (fst (run [Frame None (Some silentWindow) 150 (clockAt 150),
                         SetMode Individual 200,
                         Frame None (Some silentWindow) 300 (clockAt 300)]
                      (setMode Team 100 speakingState))))"
proof -
  have m: "mode speakingState = Individual"
    by (simp add: speakingState_def initialAppState_def)
  have ev: "map key (fst (run [Frame None (Some silentWindow) 300 (clockAt 300)] speakingState)) =
     [''speech-off'']"
    by (simp add: speakingState_def initialAppState_def frameCalls_def analyze_def
        analyzeVideo_def analyzeAudio_def computeRms_silentWindow Let_def
        defaultIndividualFlags_def initialIndividualState_def speechThresholdOff_def
        speechThresholdOn_def js_gt_def split: prod.splits)
  have ev2: "map key (fst (run [Frame None (Some silentWindow) 150 (clockAt 150),
                      SetMode Individual 200,
                      Frame None (Some silentWindow) 300 (clockAt 300)]
                   (setMode Team 100 speakingState))) = []"
    by (simp add: speakingState_def initialAppState_def frameCalls_def frameTick_def
        setMode_def mount_def analyze_def analyzeTeam_def
        analyzeVideo_def analyzeAudio_def computeRms_silentWindow Let_def
        defaultIndividualFlags_def initialIndividualState_def speechThresholdOff_def
        speechThresholdOn_def js_gt_def split: prod.splits)
  show ?thesis
    using no_stale_speech_off[OF m, of 100
        "[Frame None (Some silentWindow) 150 (clockAt 150), SetMode Individual 200,
          Frame None (Some silentWindow) 300 (clockAt 300)]" 200]
      m ev ev2
    by (simp add: speakingState_def)
qed

end
